theory Spec2Isabelle
  imports Complex_Main "HOL-Library.Monad_Syntax"
begin

section \<open>Python primitives used by the composition engine\<close>

text \<open>
  Python numbers are modelled exactly: an \<open>int\<close> is a HOL \<open>int\<close>, and a Python
  \<open>float\<close> is a \<open>real\<close>, so every product, sum and quotient below is the exact one.
  The decimal literals of the source (\<open>12.3\<close>, \<open>0.35\<close>, \<open>11.7\<close>, ...) stand for the
  decimal fractions they denote, not for the nearest binary double.
  A string is a list of 8-bit characters, one \<open>char\<close> per code point.
  An operation that raises in Python returns \<open>None\<close>.
\<close>

definition py_int :: "real \<Rightarrow> int" where
  \<comment> \<open>\<open>int(x)\<close> of a float: truncation toward zero.\<close>
  "py_int x = (if 0 \<le> x then \<lfloor>x\<rfloor> else \<lceil>x\<rceil>)"

definition hexval :: "char \<Rightarrow> int option" where
  \<comment> \<open>The value of one hexadecimal digit, either case.\<close>
  "hexval c = (let n = (of_char c :: nat) in
     if 48 \<le> n \<and> n \<le> 57 then Some (int n - 48)
     else if 97 \<le> n \<and> n \<le> 102 then Some (int n - 87)
     else if 65 \<le> n \<and> n \<le> 70 then Some (int n - 55)
     else None)"

definition py_isspace :: "char \<Rightarrow> bool" where
  \<comment> \<open>\<open>str.isspace\<close> on one character below code point 256.\<close>
  "py_isspace c = (let n = (of_char c :: nat) in
     (9 \<le> n \<and> n \<le> 13) \<or> (28 \<le> n \<and> n \<le> 32) \<or> n = 133 \<or> n = 160)"

fun int_base16 :: "string \<Rightarrow> int option" where
  \<comment> \<open>\<open>int(s, 16)\<close> on the slices \<open>c[0:2]\<close>, \<open>c[2:4]\<close>, \<open>c[4:6]\<close> the callers pass, which
      hold at most two characters. Besides two digits Python accepts a sign or a
      blank next to one digit; everything else raises ValueError.\<close>
  "int_base16 [a] = hexval a"
| "int_base16 [a, b] =
     (case (hexval a, hexval b) of
        (Some x, Some y) \<Rightarrow> Some (16 * x + y)
      | (None, Some y) \<Rightarrow>
          if a = CHR ''+'' \<or> py_isspace a then Some y
          else if a = CHR ''-'' then Some (- y) else None
      | (Some x, None) \<Rightarrow> if py_isspace b then Some x else None
      | (None, None) \<Rightarrow> None)"
| "int_base16 _ = None"

definition hex_char :: "nat \<Rightarrow> char" where
  \<comment> \<open>The lower-case digit that the format code \<open>x\<close> writes for a value below 16.\<close>
  "hex_char k = (if k < 10 then char_of (48 + k) else char_of (87 + k))"

fun hex_digits :: "nat \<Rightarrow> string" where
  "hex_digits n = (if n < 16 then [hex_char n]
                   else hex_digits (n div 16) @ [hex_char (n mod 16)])"

definition format_02x :: "int \<Rightarrow> string" where
  \<comment> \<open>\<open>f"{n:02x}"\<close>: lower-case hexadecimal, zero-padded to width 2; the sign of a
      negative number counts toward the width, a wider number is not cut.\<close>
  "format_02x n =
     (if n < 0 then CHR ''-'' # hex_digits (nat (- n))
      else if n < 16 then CHR ''0'' # hex_digits (nat n)
      else hex_digits (nat n))"

fun dec_digits :: "nat \<Rightarrow> string" where
  \<comment> \<open>\<open>str(n)\<close> of a non-negative integer.\<close>
  "dec_digits n = (if n < 10 then [char_of (48 + n)]
                   else dec_digits (n div 10) @ [char_of (48 + n mod 10)])"

definition lstrip_hash :: "string \<Rightarrow> string" where
  \<comment> \<open>\<open>s.lstrip('#')\<close>\<close>
  "lstrip_hash s = dropWhile (\<lambda>c. c = CHR ''#'') s"

section \<open>Color model (ppt\_tools.py)\<close>

type_synonym rgb = "int \<times> int \<times> int"

definition channels :: "string \<Rightarrow> rgb option" where
  \<comment> \<open>The shared first two lines of \<open>_darken\<close> and \<open>_lighten\<close>:
      \<open>c = hex_color.lstrip('#'); r, g, b = int(c[0:2], 16), int(c[2:4], 16), int(c[4:6], 16)\<close>\<close>
  "channels hex_color =
     (let c = lstrip_hash hex_color in
      do { r \<leftarrow> int_base16 (take 2 c);
           g \<leftarrow> int_base16 (take 2 (drop 2 c));
           b \<leftarrow> int_base16 (take 2 (drop 4 c));
           Some (r, g, b) })"

definition darken :: "string \<Rightarrow> real \<Rightarrow> string option" where
  \<comment> \<open>\<open>_darken(hex_color, factor)\<close>\<close>
  "darken hex_color factor =
     do { (r, g, b) \<leftarrow> channels hex_color;
          let r' = py_int (of_int r * factor);
          let g' = py_int (of_int g * factor);
          let b' = py_int (of_int b * factor);
          Some (CHR ''#'' # format_02x r' @ format_02x g' @ format_02x b') }"

definition lighten :: "string \<Rightarrow> real \<Rightarrow> string option" where
  \<comment> \<open>\<open>_lighten(hex_color, factor)\<close>\<close>
  "lighten hex_color factor =
     do { (r, g, b) \<leftarrow> channels hex_color;
          let r' = py_int (of_int r + (255 - of_int r) * factor);
          let g' = py_int (of_int g + (255 - of_int g) * factor);
          let b' = py_int (of_int b + (255 - of_int b) * factor);
          Some (CHR ''#'' # format_02x r' @ format_02x g' @ format_02x b') }"

definition hex6 :: "string \<Rightarrow> bool" where
  \<comment> \<open>A colour written as six hexadecimal digits, with or without the leading \<open>#\<close>.\<close>
  "hex6 s = (let ds = (case s of [] \<Rightarrow> [] | c # cs \<Rightarrow> if c = CHR ''#'' then cs else s)
             in length ds = 6 \<and> list_all (\<lambda>d. hexval d \<noteq> None) ds)"

definition hex_rgb :: "string \<Rightarrow> rgb option" where
  \<comment> \<open>\<open>_hex(color)\<close>: three characters are doubled; \<open>RGBColor\<close> refuses a channel
      outside 0..255 with ValueError.\<close>
  "hex_rgb color =
     (let c0 = lstrip_hash color;
          c = (if length c0 = 3 then concat (map (\<lambda>ch. [ch, ch]) c0) else c0)
      in do { r \<leftarrow> int_base16 (take 2 c);
              g \<leftarrow> int_base16 (take 2 (drop 2 c));
              b \<leftarrow> int_base16 (take 2 (drop 4 c));
              if 0 \<le> r \<and> r \<le> 255 \<and> 0 \<le> g \<and> g \<le> 255 \<and> 0 \<le> b \<and> b \<le> 255
              then Some (r, g, b) else None })"

subsection \<open>Gradient fill\<close>







section \<open>Chart spec adapter\<close>

record series =
  s_name :: "string option"
  s_values :: "real list option"
  s_x_values :: "real list"
  s_y_values :: "real list"

text \<open>
  The chart description. A key that every reader defaults to the empty string or the
  empty list is a plain field (absent = empty); a key with another default is an
  \<open>option\<close>, and each reader applies its own default, as the two modules do.
\<close>

record chart_config =
  cc_chart_type :: "string option"
  cc_title :: string
  cc_x_label :: string
  cc_y_label :: string
  cc_categories :: "string list"
  cc_series :: "series list"
  cc_colors :: "string list"
  cc_show_legend :: "bool option"
  cc_legend_position :: "string option"
  cc_show_data_labels :: bool
  cc_number_format :: "string option"

subsection \<open>Rasterized path (office\_tools.py, \_generate\_chart\_image)\<close>

definition default_colors :: "string list" where
  "default_colors = [''#4472C4'', ''#ED7D31'', ''#A5A5A5'', ''#FFC000'', ''#5B9BD5'',
                     ''#70AD47'', ''#264478'', ''#9B57A0'', ''#636363'', ''#EB7E30'']"

definition chart_colors :: "chart_config \<Rightarrow> string list" where
  \<comment> \<open>\<open>colors = chart_config.get("colors", None); if not colors: colors = default_colors\<close>\<close>
  "chart_colors cfg = (if cc_colors cfg = [] then default_colors else cc_colors cfg)"

definition series_label :: "nat \<Rightarrow> series \<Rightarrow> string" where
  \<comment> \<open>\<open>s.get("name", f"Series {i+1}")\<close>\<close>
  "series_label i s = (case s_name s of Some n \<Rightarrow> n | None \<Rightarrow> ''Series '' @ dec_digits (i + 1))"




record bar_call =
  bar_x :: "nat list"
  bar_height :: "real list"
  bar_width :: real
  bar_bottom :: "real list"
  bar_label :: string
  bar_color :: string

definition np_broadcast :: "nat \<Rightarrow> real list \<Rightarrow> real list option" where
  \<comment> \<open>numpy broadcasting of a one-dimensional array to length \<open>n\<close>: an array of that
      length is taken as it is, an array of one element is repeated, any other
      length raises ValueError.\<close>
  "np_broadcast n vals =
     (if length vals = n then Some vals
      else if length vals = 1 then Some (replicate n (hd vals))
      else None)"

definition stacked_vals :: "nat \<Rightarrow> series \<Rightarrow> real list" where
  \<comment> \<open>\<open>np.array(s.get("values", [0]*len(categories))[:len(categories)], dtype=float)\<close>\<close>
  "stacked_vals n s = take n (case s_values s of Some v \<Rightarrow> v | None \<Rightarrow> replicate n 0)"

fun stacked_loop ::
  "string list \<Rightarrow> nat \<Rightarrow> nat \<Rightarrow> real list \<Rightarrow> series list \<Rightarrow> (bar_call list \<times> real list) option" where
  \<comment> \<open>The loop \<open>for i, s in enumerate(series_list)\<close> of the stacked branch, from series
      number \<open>i\<close> on with the running \<open>bottom\<close>; it returns the \<open>ax.bar\<close> calls and the
      final \<open>bottom\<close>.\<close>
  "stacked_loop colors n i bottom [] = Some ([], bottom)"
| "stacked_loop colors n i bottom (s # ss) =
     (case np_broadcast n (stacked_vals n s) of
        None \<Rightarrow> None
      | Some vals \<Rightarrow>
          (case stacked_loop colors n (i + 1) (map2 (+) bottom vals) ss of
             None \<Rightarrow> None
           | Some (calls, tot) \<Rightarrow>
               Some (\<lparr>bar_x = [0..<n], bar_height = vals, bar_width = 6 / 10,
                       bar_bottom = bottom, bar_label = series_label i s,
                       bar_color = colors ! (i mod length colors)\<rparr> # calls, tot)))"

record stacked_plan =
  sp_bars :: "bar_call list"
  sp_total :: "real list"
  sp_xticks :: "nat list"
  sp_xticklabels :: "string list"
  sp_rotation :: nat
  sp_title :: string
  sp_x_label :: string
  sp_y_label :: string
  sp_legend :: bool

definition chart_image_stacked_bar :: "chart_config \<Rightarrow> stacked_plan option" where
  \<comment> \<open>What \<open>_generate_chart_image\<close> draws when \<open>chart_type == "stacked_bar"\<close>.\<close>
  "chart_image_stacked_bar cfg =
     (let n = length (cc_categories cfg) in
      case stacked_loop (chart_colors cfg) n 0 (replicate n 0) (cc_series cfg) of
        None \<Rightarrow> None
      | Some (calls, tot) \<Rightarrow>
          Some \<lparr>sp_bars = calls, sp_total = tot,
                sp_xticks = [0..<n], sp_xticklabels = cc_categories cfg,
                sp_rotation = (if n > 6 then 45 else 0),
                sp_title = cc_title cfg, sp_x_label = cc_x_label cfg,
                sp_y_label = cc_y_label cfg,
                sp_legend = ((case cc_show_legend cfg of Some b \<Rightarrow> b | None \<Rightarrow> True)
                             \<and> length (cc_series cfg) > 1)\<rparr>)"

subsection \<open>Native path (ppt\_tools.py, \_add\_native\_chart)\<close>

definition py_upper :: "string \<Rightarrow> string" where
  \<comment> \<open>\<open>s.upper()\<close> on ASCII letters. Other characters are left as they are: the result is
      only looked up in tables whose keys are ASCII and hold no \<open>SS\<close>, so the lookup
      is the one Python makes.\<close>
  "py_upper s = map (\<lambda>c. let n = (of_char c :: nat) in
                       if 97 \<le> n \<and> n \<le> 122 then char_of (n - 32) else c) s"

definition py_lower :: "string \<Rightarrow> string" where
  \<comment> \<open>\<open>s.lower()\<close> on ASCII letters, with the same remark.\<close>
  "py_lower s = map (\<lambda>c. let n = (of_char c :: nat) in
                       if 65 \<le> n \<and> n \<le> 90 then char_of (n + 32) else c) s"

definition py_strip :: "string \<Rightarrow> string" where
  \<comment> \<open>\<open>s.strip()\<close>\<close>
  "py_strip s = rev (dropWhile py_isspace (rev (dropWhile py_isspace s)))"

datatype xl_chart_type =
    COLUMN_CLUSTERED | COLUMN_STACKED | BAR_CLUSTERED | BAR_STACKED | LINE_MARKERS
  | LINE_MARKERS_STACKED | PIE | DOUGHNUT | AREA | AREA_STACKED | XY_SCATTER

definition type_map :: "(string \<times> xl_chart_type) list" where
  "type_map =
     [(''COLUMN'', COLUMN_CLUSTERED), (''COLUMN_STACKED'', COLUMN_STACKED),
      (''BAR'', BAR_CLUSTERED), (''BAR_STACKED'', BAR_STACKED),
      (''LINE'', LINE_MARKERS), (''LINE_SMOOTH'', LINE_MARKERS_STACKED),
      (''PIE'', PIE), (''DOUGHNUT'', DOUGHNUT), (''AREA'', AREA),
      (''AREA_STACKED'', AREA_STACKED), (''SCATTER'', XY_SCATTER)]"

datatype chart_data =
    CategoryChartData "string list" "(string \<times> real list) list"
  | XyChartData "(string \<times> (real \<times> real) list) list"

datatype legend = LegendUntouched | LegendOn string | LegendOff

record native_chart =
  nc_type :: xl_chart_type
  nc_left :: real
  nc_top :: real
  nc_width :: real
  nc_height :: real
  nc_data :: chart_data
  nc_title :: "string option"
  nc_legend :: legend
  nc_data_labels :: "string option"
  nc_series_fill :: "rgb list"

definition native_name :: "series \<Rightarrow> string" where
  \<comment> \<open>\<open>s.get("name", "Series")\<close>\<close>
  "native_name s = (case s_name s of Some n \<Rightarrow> n | None \<Rightarrow> ''Series'')"

definition native_chart_data :: "string \<Rightarrow> chart_config \<Rightarrow> chart_data" where
  \<comment> \<open>The chart data handed to \<open>add_chart\<close>: one series per entry of \<open>series_data\<close>.\<close>
  "native_chart_data chart_type_str cfg =
     (if chart_type_str = ''SCATTER''
      then XyChartData (map (\<lambda>s. (native_name s,
                 zip (s_x_values s) (case s_values s of Some v \<Rightarrow> v | None \<Rightarrow> s_y_values s)))
               (cc_series cfg))
      else CategoryChartData (cc_categories cfg)
             (map (\<lambda>s. (native_name s, (case s_values s of Some v \<Rightarrow> v | None \<Rightarrow> [])))
                  (cc_series cfg)))"

definition legend_member :: "string \<Rightarrow> string" where
  \<comment> \<open>\<open>getattr(XL_LEGEND_POSITION, legend_pos, XL_LEGEND_POSITION.BOTTOM)\<close>\<close>
  "legend_member p =
     (if p \<in> set [''BOTTOM'', ''CORNER'', ''CUSTOM'', ''LEFT'', ''RIGHT'', ''TOP''] then p
      else ''BOTTOM'')"

definition add_native_chart ::
  "chart_config \<Rightarrow> real \<Rightarrow> real \<Rightarrow> real \<Rightarrow> real \<Rightarrow> native_chart option" where
  \<comment> \<open>\<open>_add_native_chart(slide, chart_config, left, top, width, height)\<close>: the chart given
      to the document writer; \<open>None\<close> when a series colour is refused by \<open>_hex\<close>.\<close>
  "add_native_chart cfg left ytop width height =
     (let chart_type_str = py_upper (case cc_chart_type cfg of Some t \<Rightarrow> t | None \<Rightarrow> ''column'');
          xl_type = (case map_of type_map chart_type_str of Some t \<Rightarrow> t | None \<Rightarrow> COLUMN_CLUSTERED);
          show_legend = (case cc_show_legend cfg of Some b \<Rightarrow> b | None \<Rightarrow> True)
      in do {
        fills \<leftarrow> those (map hex_rgb (take (length (cc_series cfg)) (cc_colors cfg)));
        Some \<lparr>nc_type = xl_type, nc_left = left, nc_top = ytop, nc_width = width,
              nc_height = height,
              nc_data = native_chart_data chart_type_str cfg,
              nc_title = (if cc_title cfg \<noteq> [] then Some (cc_title cfg) else None),
              nc_legend =
                (if show_legend \<and> length (cc_series cfg) > 1
                 then LegendOn (legend_member (py_upper
                        (case cc_legend_position cfg of Some p \<Rightarrow> p | None \<Rightarrow> ''BOTTOM'')))
                 else if \<not> show_legend then LegendOff else LegendUntouched),
              nc_data_labels =
                (if cc_show_data_labels cfg
                 then Some (case cc_number_format cfg of Some f \<Rightarrow> f | None \<Rightarrow> ''0'')
                 else None),
              nc_series_fill = fills\<rparr> })"

section \<open>Theme resolver (ppt\_tools.py)\<close>

text \<open>
  A theme is the dictionary of the twelve colour roles. Every preset defines all
  twelve, and the custom colours are merged on top of a preset, so each role is
  always present: the defaults of the \<open>theme.get(role, default)\<close> reads are never
  taken, and a role is a plain field.
\<close>

record theme =
  primary :: string
  secondary :: string
  accent :: string
  light :: string
  dark :: string
  text_dark :: string
  text_light :: string
  bg :: string
  gradient_start :: string
  gradient_end :: string
  card_bg :: string
  card_border :: string

definition mk_theme :: "string list \<Rightarrow> theme" where
  \<comment> \<open>A preset from its twelve colours, in the order the source lists the roles.\<close>
  "mk_theme cs = \<lparr>primary = cs ! 0, secondary = cs ! 1, accent = cs ! 2, light = cs ! 3,
                  dark = cs ! 4, text_dark = cs ! 5, text_light = cs ! 6, bg = cs ! 7,
                  gradient_start = cs ! 8, gradient_end = cs ! 9, card_bg = cs ! 10,
                  card_border = cs ! 11\<rparr>"

definition midnight :: theme where
  "midnight = mk_theme [''#2C3E50'', ''#34495E'', ''#1ABC9C'', ''#EBF5FB'', ''#1B2631'', ''#1C2833'',
                        ''#FFFFFF'', ''#F8F9FA'', ''#2C3E50'', ''#34495E'', ''#FFFFFF'', ''#AEB6BF'']"

definition THEMES :: "(string \<times> theme) list" where
  "THEMES =
    [(''ocean'', mk_theme [''#1A5276'', ''#2980B9'', ''#3498DB'', ''#D6EAF8'', ''#0E2F44'', ''#1C2833'',
                          ''#FFFFFF'', ''#F0F8FF'', ''#1A5276'', ''#2980B9'', ''#FFFFFF'', ''#AED6F1'']),
     (''forest'', mk_theme [''#1E8449'', ''#27AE60'', ''#2ECC71'', ''#D5F5E3'', ''#0B3D1E'', ''#1C2833'',
                           ''#FFFFFF'', ''#F0FFF0'', ''#1E8449'', ''#27AE60'', ''#FFFFFF'', ''#ABEBC6'']),
     (''sunset'', mk_theme [''#C0392B'', ''#E74C3C'', ''#F39C12'', ''#FDEDEC'', ''#641E16'', ''#1C2833'',
                           ''#FFFFFF'', ''#FFF5F0'', ''#C0392B'', ''#E74C3C'', ''#FFFFFF'', ''#F5B7B1'']),
     (''royal'', mk_theme [''#6C3483'', ''#8E44AD'', ''#BB8FCE'', ''#F4ECF7'', ''#3B1A5C'', ''#1C2833'',
                          ''#FFFFFF'', ''#FAF0FF'', ''#6C3483'', ''#8E44AD'', ''#FFFFFF'', ''#D2B4DE'']),
     (''midnight'', midnight),
     (''coral'', mk_theme [''#E8725C'', ''#F09E8C'', ''#F7C59F'', ''#FFF0EB'', ''#8B3A2F'', ''#2D2D2D'',
                          ''#FFFFFF'', ''#FFFAF8'', ''#E8725C'', ''#F09E8C'', ''#FFFFFF'', ''#F5C6BA'']),
     (''tech'', mk_theme [''#0D47A1'', ''#1565C0'', ''#42A5F5'', ''#E3F2FD'', ''#0A1929'', ''#1A237E'',
                         ''#FFFFFF'', ''#F5F9FF'', ''#0D47A1'', ''#1565C0'', ''#FFFFFF'', ''#90CAF9'']),
     (''elegant'', mk_theme [''#2C2C2C'', ''#555555'', ''#C9A96E'', ''#F5F0E8'', ''#1A1A1A'', ''#2C2C2C'',
                            ''#FFFFFF'', ''#FAFAF5'', ''#2C2C2C'', ''#555555'', ''#FFFFFF'', ''#D5C4A1''])]"

definition get_theme :: "string \<Rightarrow> theme" where
  \<comment> \<open>\<open>_get_theme(name)\<close>: \<open>THEMES.get(name, THEMES["midnight"])\<close>\<close>
  "get_theme name = (case map_of THEMES name of Some t \<Rightarrow> t | None \<Rightarrow> midnight)"

record custom_colors =
  cu_primary :: "string option"
  cu_secondary :: "string option"
  cu_accent :: "string option"
  cu_light :: "string option"
  cu_dark :: "string option"
  cu_text_dark :: "string option"
  cu_text_light :: "string option"
  cu_bg :: "string option"
  cu_gradient_start :: "string option"
  cu_gradient_end :: "string option"
  cu_card_bg :: "string option"
  cu_card_border :: "string option"

definition override :: "string \<Rightarrow> string option \<Rightarrow> string" where
  "override base v = (case v of Some c \<Rightarrow> c | None \<Rightarrow> base)"

definition merge_theme :: "theme \<Rightarrow> custom_colors \<Rightarrow> theme" where
  \<comment> \<open>\<open>{**theme, **custom_colors}\<close> on the twelve roles\<close>
  "merge_theme t cu =
     \<lparr>primary = override (primary t) (cu_primary cu),
      secondary = override (secondary t) (cu_secondary cu),
      accent = override (accent t) (cu_accent cu),
      light = override (light t) (cu_light cu),
      dark = override (dark t) (cu_dark cu),
      text_dark = override (text_dark t) (cu_text_dark cu),
      text_light = override (text_light t) (cu_text_light cu),
      bg = override (bg t) (cu_bg cu),
      gradient_start = override (gradient_start t) (cu_gradient_start cu),
      gradient_end = override (gradient_end t) (cu_gradient_end cu),
      card_bg = override (card_bg t) (cu_card_bg cu),
      card_border = override (card_border t) (cu_card_border cu)\<rparr>"

section \<open>Drawing calls on the document writer (ppt\_tools.py)\<close>

text \<open>
  The document writer is an external library. A slide is the list of the shapes the
  builders asked it to add, in the order of the calls, each with the arguments of
  the call; geometry is in inches, as passed to \<open>_inches\<close>. The calls into the
  library are taken to succeed. What is modelled as raising is this repository's
  own code: a colour that \<open>_hex\<close>, \<open>_lighten\<close> or \<open>_darken\<close> cannot parse, and a
  picture the environment marks unreadable.

  The input is typed as the tool schema (definitions.py) documents it: texts are
  strings, numbers are numbers, and a text content is a string or a dictionary.
  A dictionary key that is absent is \<open>None\<close>. Runs inside a paragraph and the
  per-item size and weight of bullets are left out of a text content; its colours,
  the only part of it that can raise, are kept.
\<close>

record item =
  it_text :: string
  it_color :: "string option"

record text_config =
  tc_text :: "string option"
  tc_paragraphs :: "item list option"
  tc_bullets :: "item list option"
  tc_font_size :: "real option"
  tc_color :: "string option"
  tc_bold :: "bool option"
  tc_italic :: "bool option"
  tc_underline :: "bool option"
  tc_align :: "string option"
  tc_vertical_anchor :: "string option"
  tc_line_spacing :: "real option"
  tc_margins :: "(real \<times> real \<times> real \<times> real) option"
  tc_font_name :: "string option"

definition empty_config :: text_config where
  \<comment> \<open>The empty dictionary \<open>{}\<close>.\<close>
  "empty_config = \<lparr>tc_text = None, tc_paragraphs = None, tc_bullets = None,
     tc_font_size = None, tc_color = None, tc_bold = None, tc_italic = None,
     tc_underline = None, tc_align = None, tc_vertical_anchor = None,
     tc_line_spacing = None, tc_margins = None, tc_font_name = None\<rparr>"

definition plain_text :: "string \<Rightarrow> real \<Rightarrow> string \<Rightarrow> text_config" where
  \<comment> \<open>The literal \<open>{"text": t, "font_size": font_size, "color": color}\<close>, to which the
      builders add their other keys.\<close>
  "plain_text t font_size color = empty_config\<lparr>tc_text := Some t, tc_font_size := Some font_size,
                                     tc_color := Some color\<rparr>"

datatype content = Str string | Dict text_config

definition if_truthy :: "content option \<Rightarrow> content option" where
  \<comment> \<open>The text content when it is truthy in Python: an absent key, \<open>""\<close> and \<open>{}\<close>
      are false.\<close>
  "if_truthy c = (case c of None \<Rightarrow> None
                  | Some (Str s) \<Rightarrow> if s = [] then None else c
                  | Some (Dict d) \<Rightarrow> if d = empty_config then None else c)"

definition as_config :: "content \<Rightarrow> text_config" where
  \<comment> \<open>\<open>c if isinstance(c, dict) else {"text": str(c)}\<close>\<close>
  "as_config c = (case c of Dict d \<Rightarrow> d | Str s \<Rightarrow> empty_config\<lparr>tc_text := Some s\<rparr>)"

definition setdefault_font_size :: "real \<Rightarrow> text_config \<Rightarrow> text_config" where
  "setdefault_font_size v c = (if tc_font_size c = None then c\<lparr>tc_font_size := Some v\<rparr> else c)"

definition setdefault_color :: "string \<Rightarrow> text_config \<Rightarrow> text_config" where
  "setdefault_color v c = (if tc_color c = None then c\<lparr>tc_color := Some v\<rparr> else c)"

definition setdefault_line_spacing :: "real \<Rightarrow> text_config \<Rightarrow> text_config" where
  "setdefault_line_spacing v c =
     (if tc_line_spacing c = None then c\<lparr>tc_line_spacing := Some v\<rparr> else c)"

datatype image_status = Missing | Unreadable | Readable

text \<open>
  The environment of a call: the configured workspace (\<open>get_workspace_path()\<close>), what
  is found at a path when a picture is asked for, whether \<open>os.makedirs\<close> of a directory
  succeeds, and whether the final \<open>save\<close> to a path succeeds; the last two raise an
  I/O error when they do not.
\<close>

record env =
  env_workspace :: "string option"
  env_image :: "string \<Rightarrow> image_status"
  env_makedirs_ok :: "string \<Rightarrow> bool"
  env_save_ok :: "string \<Rightarrow> bool"

record cell =
  ce_row :: nat
  ce_col :: nat
  ce_text :: string
  ce_fill :: rgb
  ce_font_color :: rgb
  ce_font_size :: real
  ce_bold :: bool

record table_shape =
  tb_left :: real
  tb_top :: real
  tb_width :: real
  tb_height :: real
  tb_rows :: nat
  tb_cols :: nat
  tb_cells :: "cell list"

datatype shape =
    RoundedRect real real real real rgb "(rgb \<times> real) option" bool
  | Oval real real real rgb "(rgb \<times> real) option"
  | Bar real real real real rgb
  | TextBox real real real real text_config string
  | AutoShape string real real real real rgb "(rgb \<times> real) option" "text_config option"
              "real option"
  | Picture string real real real real
  | ChartFrame native_chart
  | TableFrame table_shape

datatype background = Gradient rgb rgb real | Solid rgb

record slide =
  sl_background :: background
  sl_shapes :: "shape list"

definition border_of :: "string \<Rightarrow> real \<Rightarrow> (rgb \<times> real) option option" where
  \<comment> \<open>\<open>if border_color and border_width > 0: line.color.rgb = _hex(border_color); ...\<close>
      \<open>else: line.fill.background()\<close>. The outer \<open>None\<close> is the exception of \<open>_hex\<close>.\<close>
  "border_of border_color border_width =
     (if border_color \<noteq> [] \<and> border_width > 0
      then map_option (\<lambda>c. Some (c, border_width)) (hex_rgb border_color)
      else Some None)"

definition add_rounded_rect ::
  "real \<Rightarrow> real \<Rightarrow> real \<Rightarrow> real \<Rightarrow> string \<Rightarrow> string \<Rightarrow> real \<Rightarrow> bool \<Rightarrow> shape option" where
  \<comment> \<open>\<open>_add_rounded_rect(slide, left, top, width, height, fill_color, border_color,
      border_width, shadow=shadow)\<close>; \<open>border_color=None\<close> is the empty string.\<close>
  "add_rounded_rect left ytop width height fill_color border_color border_width shadow =
     do { f \<leftarrow> hex_rgb fill_color;
          b \<leftarrow> border_of border_color border_width;
          Some (RoundedRect left ytop width height f b shadow) }"

definition add_circle :: "real \<Rightarrow> real \<Rightarrow> real \<Rightarrow> string \<Rightarrow> string \<Rightarrow> real \<Rightarrow> shape option" where
  \<comment> \<open>\<open>_add_circle(slide, left, top, size, fill_color, border_color, border_width)\<close>\<close>
  "add_circle left ytop diameter fill_color border_color border_width =
     do { f \<leftarrow> hex_rgb fill_color;
          b \<leftarrow> border_of border_color border_width;
          Some (Oval left ytop diameter f b) }"

definition add_decorative_bar :: "real \<Rightarrow> real \<Rightarrow> real \<Rightarrow> real \<Rightarrow> string \<Rightarrow> shape option" where
  \<comment> \<open>\<open>_add_decorative_bar(slide, x, y, w, h, color)\<close>\<close>
  "add_decorative_bar x y w h color = map_option (Bar x y w h) (hex_rgb color)"

definition item_colors_ok :: "string \<Rightarrow> item list \<Rightarrow> bool" where
  "item_colors_ok color items =
     list_all (\<lambda>i. hex_rgb (case it_color i of Some c \<Rightarrow> c | None \<Rightarrow> color) \<noteq> None) items"

definition add_text_to_frame :: "text_config \<Rightarrow> bool" where
  \<comment> \<open>\<open>_add_text_to_frame(tf, text_config, default_font)\<close>, as far as it can raise: the
      first of \<open>text\<close>, \<open>paragraphs\<close>, \<open>bullets\<close> that is present is written, every run in
      the colour \<open>_hex\<close> makes of its colour string; with none of the three nothing is
      written. True when no colour is refused.\<close>
  "add_text_to_frame text_config =
     (let color = (case tc_color text_config of Some c \<Rightarrow> c | None \<Rightarrow> ''#333333'') in
      if tc_text text_config \<noteq> None then hex_rgb color \<noteq> None
      else case tc_paragraphs text_config of
             Some ps \<Rightarrow> item_colors_ok color ps
           | None \<Rightarrow> (case tc_bullets text_config of
                        Some bs \<Rightarrow> item_colors_ok color bs
                      | None \<Rightarrow> True))"

definition add_text_box ::
  "real \<Rightarrow> real \<Rightarrow> real \<Rightarrow> real \<Rightarrow> text_config \<Rightarrow> string \<Rightarrow> shape option" where
  \<comment> \<open>\<open>_add_text_box(slide, left, top, width, height, text_config, default_font)\<close>\<close>
  "add_text_box left ytop width height text_config default_font =
     (if add_text_to_frame text_config
      then Some (TextBox left ytop width height text_config default_font) else None)"

definition apply_bg_gradient :: "string \<Rightarrow> string \<Rightarrow> real \<Rightarrow> background option" where
  \<comment> \<open>\<open>_apply_bg_gradient(slide, color_start, color_end, angle)\<close>\<close>
  "apply_bg_gradient color_start color_end angle =
     do { a \<leftarrow> hex_rgb color_start; b \<leftarrow> hex_rgb color_end; Some (Gradient a b angle) }"

definition apply_bg_solid :: "string \<Rightarrow> background option" where
  \<comment> \<open>\<open>_apply_bg_solid(slide, color)\<close>\<close>
  "apply_bg_solid color = map_option Solid (hex_rgb color)"

subsection \<open>Tables\<close>

record table_config =
  tcf_left :: "real option"
  tcf_top :: "real option"
  tcf_width :: "real option"
  tcf_height :: "real option"
  tcf_data :: "string list list"
  tcf_header_bg :: "string option"
  tcf_header_fg :: "string option"
  tcf_stripe_colors :: "string list option"
  tcf_font_size :: "real option"
  tcf_header_font_size :: "real option"

definition or_default :: "'a option \<Rightarrow> 'a \<Rightarrow> 'a" where
  \<comment> \<open>\<open>d.get(key, default)\<close> on a key that is \<open>None\<close> when absent\<close>
  "or_default v d = (case v of Some x \<Rightarrow> x | None \<Rightarrow> d)"

definition table_cell :: "table_config \<Rightarrow> theme \<Rightarrow> nat \<Rightarrow> nat \<Rightarrow> string \<Rightarrow> cell option" where
  \<comment> \<open>The body of the two loops of \<open>_add_styled_table\<close> for the cell at \<open>(r_idx, c_idx)\<close>.\<close>
  "table_cell table_config theme r_idx c_idx val =
     (let stripes = or_default (tcf_stripe_colors table_config) [''#FFFFFF'', light theme] in
      if r_idx = 0
      then do { f \<leftarrow> hex_rgb (or_default (tcf_header_bg table_config) (primary theme));
                c \<leftarrow> hex_rgb (or_default (tcf_header_fg table_config) ''#FFFFFF'');
                Some \<lparr>ce_row = r_idx, ce_col = c_idx, ce_text = val, ce_fill = f,
                      ce_font_color = c,
                      ce_font_size = or_default (tcf_header_font_size table_config) 13,
                      ce_bold = True\<rparr> }
      else do { f \<leftarrow> hex_rgb (if stripes \<noteq> [] then stripes ! (r_idx mod length stripes)
                                else ''#FFFFFF'');
                c \<leftarrow> hex_rgb (text_dark theme);
                Some \<lparr>ce_row = r_idx, ce_col = c_idx, ce_text = val, ce_fill = f,
                      ce_font_color = c,
                      ce_font_size = or_default (tcf_font_size table_config) 12,
                      ce_bold = False\<rparr> })"

definition add_styled_table :: "table_config \<Rightarrow> theme \<Rightarrow> string \<Rightarrow> shape option list" where
  \<comment> \<open>\<open>_add_styled_table(slide, table_config, theme, default_font)\<close>: no call at all when
      it returns \<open>None\<close> (no data, or an empty first row), else the one table.\<close>
  "add_styled_table table_config theme default_font =
     (let data = tcf_data table_config in
      if data = [] then []
      else let rows = length data; cols = length (hd data) in
        if rows = 0 \<or> cols = 0 then []
        else [map_option
               (\<lambda>cells. TableFrame
                  \<lparr>tb_left = or_default (tcf_left table_config) 1,
                   tb_top = or_default (tcf_top table_config) 2,
                   tb_width = or_default (tcf_width table_config) 11,
                   tb_height = or_default (tcf_height table_config) (of_nat rows * 0.5),
                   tb_rows = rows, tb_cols = cols, tb_cells = cells\<rparr>)
               (those (concat (map (\<lambda>(r_idx, row_data).
                          map (\<lambda>(c_idx, val). table_cell table_config theme r_idx c_idx val)
                              (filter (\<lambda>(c_idx, val). c_idx < cols) (enumerate 0 row_data)))
                        (enumerate 0 data))))])"

subsection \<open>Elements of a content slide\<close>

record geom =
  g_left :: "real option"
  g_top :: "real option"
  g_width :: "real option"
  g_height :: "real option"

record shape_elem =
  se_shape_type :: "string option"
  se_geom :: geom
  se_color :: "string option"
  se_border_color :: "string option"
  se_border_width :: "real option"
  se_text :: "text_config option"
  se_rotation :: "real option"

datatype element =
    ElText geom text_config
  | ElShape shape_elem
  | ElImage string geom
  | ElChart chart_config geom
  | ElTable table_config
  | ElOther string

definition py_isabs :: "string \<Rightarrow> bool" where
  \<comment> \<open>\<open>os.path.isabs\<close>\<close>
  "py_isabs p = (p \<noteq> [] \<and> hd p = CHR ''/'')"

definition py_join :: "string \<Rightarrow> string \<Rightarrow> string" where
  \<comment> \<open>\<open>os.path.join(a, b)\<close>\<close>
  "py_join a b = (if py_isabs b then b
                  else if a = [] \<or> last a = CHR ''/'' then a @ b else a @ ''/'' @ b)"

definition add_picture :: "env \<Rightarrow> string \<Rightarrow> real \<Rightarrow> real \<Rightarrow> real \<Rightarrow> real \<Rightarrow> shape option" where
  \<comment> \<open>\<open>slide.shapes.add_picture(full_path, ...)\<close> on a path that exists\<close>
  "add_picture env full_path left ytop width height =
     (if env_image env full_path = Readable then Some (Picture full_path left ytop width height)
      else None)"

definition add_element :: "env \<Rightarrow> element \<Rightarrow> theme \<Rightarrow> string \<Rightarrow> shape option list" where
  \<comment> \<open>\<open>_add_element(slide, elem, theme, default_font)\<close>: the calls it makes on the slide.
      A shape type is kept as the upper-cased name asked for; the writer's enumeration
      resolves it, and a name that is no member becomes the rounded rectangle.\<close>
  "add_element env elem theme default_font =
     (case elem of
        ElText g text_config \<Rightarrow>
          [add_text_box (or_default (g_left g) 1) (or_default (g_top g) 2)
             (or_default (g_width g) 10) (or_default (g_height g) 1) text_config default_font]
      | ElShape e \<Rightarrow>
          [do { c \<leftarrow> hex_rgb (or_default (se_color e) (accent theme));
                b \<leftarrow> (case se_border_color e of
                        None \<Rightarrow> Some None
                      | Some bc \<Rightarrow> if bc = [] then Some None
                                   else map_option (\<lambda>c. Some (c, or_default (se_border_width e) 1))
                                          (hex_rgb bc));
                t \<leftarrow> (case se_text e of
                        None \<Rightarrow> Some None
                      | Some tc \<Rightarrow> if add_text_to_frame tc then Some (Some tc) else None);
                Some (AutoShape (py_upper (or_default (se_shape_type e) ''ROUNDED_RECTANGLE''))
                        (or_default (g_left (se_geom e)) 1) (or_default (g_top (se_geom e)) 2)
                        (or_default (g_width (se_geom e)) 3) (or_default (g_height (se_geom e)) 1)
                        c b t (se_rotation e)) }]
      | ElImage img_path g \<Rightarrow>
          (let workspace = (case env_workspace env of
                              None \<Rightarrow> ''.'' | Some w \<Rightarrow> if w = [] then ''.'' else w);
               full_path = (if py_isabs img_path then img_path else py_join workspace img_path)
           in if env_image env full_path \<noteq> Missing
              then [add_picture env full_path (or_default (g_left g) 1) (or_default (g_top g) 2)
                      (or_default (g_width g) 5) (or_default (g_height g) 3)]
              else [])
      | ElChart chart_config g \<Rightarrow>
          [map_option ChartFrame
             (add_native_chart chart_config (or_default (g_left g) 1) (or_default (g_top g) 2)
                (or_default (g_width g) 8) (or_default (g_height g) 4.5))]
      | ElTable table_config \<Rightarrow> add_styled_table table_config theme default_font
      | ElOther etype \<Rightarrow> [])"

section \<open>Slide builders (ppt\_tools.py)\<close>

datatype section_no = SecInt int | SecStr string

record card =
  cd_icon :: string
  cd_title :: string
  cd_content :: "content option"

record column =
  co_icon :: string
  co_title :: string
  co_content :: "content option"

record stat =
  st_icon :: string
  st_value :: "string option"
  st_label :: string
  st_description :: string

record step =
  stp_title :: string
  stp_description :: string
  stp_time_label :: string

text \<open>
  The dictionary of one slide, with every key a builder reads. A key whose default is
  the empty string or the empty list in every builder that reads it is a plain field
  (absent = empty); the others are \<open>None\<close> when absent and take the default of the
  builder that reads them.
\<close>

record slide_data =
  sd_slide_type :: "string option"
  sd_title :: "string option"
  sd_subtitle :: string
  sd_author :: string
  sd_date :: string
  sd_section_number :: "section_no option"
  sd_content :: "content option"
  sd_elements :: "element list"
  sd_left_title :: "string option"
  sd_right_title :: "string option"
  sd_left_column :: "content option"
  sd_right_column :: "content option"
  sd_columns :: "column list"
  sd_cards :: "card list"
  sd_chart :: "chart_config option"
  sd_description :: "content option"
  sd_stats :: "stat list"
  sd_steps :: "step list"
  sd_table :: "table_config option"
  sd_image_path :: string
  sd_caption :: string
  sd_left_items :: "item list"
  sd_right_items :: "item list"
  sd_left_color :: "string option"
  sd_right_color :: "string option"
  sd_quote :: "string option"
  sd_text :: "string option"
  sd_contact :: string

definition py_str_int :: "int \<Rightarrow> string" where
  \<comment> \<open>\<open>str(i)\<close> of an integer\<close>
  "py_str_int i = (if i < 0 then CHR ''-'' # dec_digits (nat (- i)) else dec_digits (nat i))"

definition zfill2 :: "string \<Rightarrow> string" where
  \<comment> \<open>\<open>s.zfill(2)\<close>: zeros go after a leading sign\<close>
  "zfill2 s = (case s of
                 [] \<Rightarrow> ''00''
               | [c] \<Rightarrow> if c = CHR ''+'' \<or> c = CHR ''-'' then [c, CHR ''0''] else [CHR ''0'', c]
               | _ \<Rightarrow> s)"

definition join_sep :: "string \<Rightarrow> string list \<Rightarrow> string" where
  \<comment> \<open>\<open>sep.join(parts)\<close>\<close>
  "join_sep sep parts = (case parts of [] \<Rightarrow> [] | p # ps \<Rightarrow> p @ concat (map (\<lambda>q. sep @ q) ps))"

definition new_slide :: "slide list \<Rightarrow> background option \<Rightarrow> shape option list \<Rightarrow> slide list option" where
  \<comment> \<open>\<open>slide = prs.slides.add_slide(prs.slide_layouts[6])\<close> followed by the background
      and the drawing calls of a builder, in order; the first one that raises ends
      the builder with its exception.\<close>
  "new_slide prs background calls =
     do { b \<leftarrow> background;
          shapes \<leftarrow> those calls;
          Some (prs @ [\<lparr>sl_background = b, sl_shapes = shapes\<rparr>]) }"

definition title_bar :: "theme \<Rightarrow> string \<Rightarrow> string \<Rightarrow> shape option list" where
  \<comment> \<open>The title bar, its text and the accent underline: the same three calls open
      every builder that has a title bar.\<close>
  "title_bar theme title default_font =
     [add_rounded_rect 0 0 13.333 1.1 (primary theme) [] 0 False,
      add_text_box 0.8 0.15 11 0.8
        ((plain_text title 26 (text_light theme))
           \<lparr>tc_bold := Some True, tc_align := Some ''LEFT'',
            tc_vertical_anchor := Some ''MIDDLE''\<rparr>) default_font,
      add_decorative_bar 0.8 1.05 3 0.04 (accent theme)]"

definition add_slide_footer :: "nat \<Rightarrow> theme \<Rightarrow> string \<Rightarrow> shape option list" where
  \<comment> \<open>\<open>_add_slide_footer(slide, prs, theme, default_font)\<close>; the first argument is
      \<open>slide_num = len(prs.slides)\<close>, which counts the slide being built.\<close>
  "add_slide_footer slide_num theme default_font =
     [add_decorative_bar 0 7.2 13.333 0.04 (accent theme),
      add_text_box 12.2 7.0 0.8 0.3
        ((plain_text (dec_digits slide_num) 10 (secondary theme))
           \<lparr>tc_align := Some ''RIGHT'', tc_vertical_anchor := Some ''MIDDLE''\<rparr>) default_font]"

definition build_title_slide :: "slide list \<Rightarrow> slide_data \<Rightarrow> theme \<Rightarrow> string \<Rightarrow> slide list option" where
  \<comment> \<open>\<open>_build_title_slide(prs, slide_data, theme, default_font)\<close>\<close>
  "build_title_slide prs slide_data theme default_font =
     new_slide prs (apply_bg_gradient (gradient_start theme) (gradient_end theme) 225)
       ([Option.bind (lighten (accent theme) 0.2) (\<lambda>c. add_circle 10.5 (- 1.5) 4 c [] 0),
         Option.bind (darken (primary theme) 0.5) (\<lambda>c. add_circle (- 1.5) 5.5 3.5 c [] 0),
         add_decorative_bar 1.5 3.2 2.5 0.06 (accent theme),
         add_text_box 1.5 1.5 10 1.8
           ((plain_text (or_default (sd_title slide_data) ''Presentation Title'') 42
               (text_light theme))
              \<lparr>tc_bold := Some True, tc_align := Some ''LEFT'',
               tc_vertical_anchor := Some ''BOTTOM'', tc_font_name := Some default_font\<rparr>)
           default_font]
        @ (if sd_subtitle slide_data \<noteq> []
           then [Option.bind (lighten (text_light theme) 0.15)
                   (\<lambda>c. add_text_box 1.5 3.5 9 1.0
                      ((plain_text (sd_subtitle slide_data) 20 c)
                         \<lparr>tc_align := Some ''LEFT'', tc_vertical_anchor := Some ''TOP''\<rparr>)
                      default_font)]
           else [])
        @ (let meta_text = join_sep ''  |  ''
                             (filter (\<lambda>s. s \<noteq> []) [sd_author slide_data, sd_date slide_data])
           in if meta_text \<noteq> []
              then [Option.bind (lighten (text_light theme) 0.3)
                      (\<lambda>c. add_text_box 1.5 5.8 8 0.5
                         ((plain_text meta_text 14 c)\<lparr>tc_align := Some ''LEFT''\<rparr>) default_font)]
              else [])
        @ [add_decorative_bar 0 7.25 13.333 0.08 (accent theme)])"

definition section_text :: "section_no option \<Rightarrow> string option" where
  \<comment> \<open>\<open>str(section_num).zfill(2)\<close> when \<open>section_num\<close> is truthy\<close>
  "section_text v =
     (case v of
        None \<Rightarrow> None
      | Some (SecInt i) \<Rightarrow> if i = 0 then None else Some (zfill2 (py_str_int i))
      | Some (SecStr s) \<Rightarrow> if s = [] then None else Some (zfill2 s))"

definition build_section_slide :: "slide list \<Rightarrow> slide_data \<Rightarrow> theme \<Rightarrow> string \<Rightarrow> slide list option" where
  \<comment> \<open>\<open>_build_section_slide(prs, slide_data, theme, default_font)\<close>\<close>
  "build_section_slide prs slide_data theme default_font =
     new_slide prs
       (Option.bind (darken (gradient_end theme) 0.8)
          (\<lambda>e. apply_bg_gradient (gradient_start theme) e 200))
       ((case section_text (sd_section_number slide_data) of
           Some t \<Rightarrow>
             [Option.bind (lighten (accent theme) 0.15)
                (\<lambda>c. add_text_box 1 1.5 4 3
                   ((plain_text t 96 c)
                      \<lparr>tc_bold := Some True, tc_align := Some ''LEFT'',
                       tc_vertical_anchor := Some ''MIDDLE''\<rparr>) default_font)]
         | None \<Rightarrow> [])
        @ [add_text_box 1.5 3.0 10 2.0
             ((plain_text (or_default (sd_title slide_data) ''Section Title'') 38 (text_light theme))
                \<lparr>tc_bold := Some True, tc_align := Some ''LEFT'',
                 tc_vertical_anchor := Some ''MIDDLE''\<rparr>) default_font]
        @ (if sd_subtitle slide_data \<noteq> []
           then [add_decorative_bar 1.5 5.0 2 0.05 (accent theme),
                 Option.bind (lighten (text_light theme) 0.2)
                   (\<lambda>c. add_text_box 1.5 5.2 9 0.8
                      ((plain_text (sd_subtitle slide_data) 18 c)\<lparr>tc_align := Some ''LEFT''\<rparr>)
                      default_font)]
           else [])
        @ [add_decorative_bar 0 7.25 13.333 0.08 (accent theme)])"

definition body_config :: "real \<Rightarrow> string \<Rightarrow> content \<Rightarrow> text_config" where
  \<comment> \<open>A text content made a dictionary, with \<open>setdefault("font_size", ...)\<close> and
      \<open>setdefault("color", ...)\<close>.\<close>
  "body_config font_size color c = setdefault_color color (setdefault_font_size font_size (as_config c))"

definition build_content_slide ::
  "env \<Rightarrow> slide list \<Rightarrow> slide_data \<Rightarrow> theme \<Rightarrow> string \<Rightarrow> slide list option" where
  \<comment> \<open>\<open>_build_content_slide(prs, slide_data, theme, default_font)\<close>; the environment is
      the one its image elements look files up in.\<close>
  "build_content_slide env prs slide_data theme default_font =
     new_slide prs (apply_bg_solid (bg theme))
       (title_bar theme (or_default (sd_title slide_data) []) default_font
        @ (case if_truthy (sd_content slide_data) of
             Some content \<Rightarrow>
               [add_text_box 0.8 1.4 11.5 5.2
                  (setdefault_line_spacing 1.5 (body_config 18 (text_dark theme) content))
                  default_font]
           | None \<Rightarrow> [])
        @ concat (map (\<lambda>elem. add_element env elem theme default_font) (sd_elements slide_data))
        @ add_slide_footer (Suc (length prs)) theme default_font)"

definition column_body ::
  "real \<Rightarrow> string \<Rightarrow> content option \<Rightarrow> theme \<Rightarrow> string \<Rightarrow> shape option list" where
  \<comment> \<open>One column of the two-column slide below its card: with a column title the
      accent bar, the title and the content; without one the content alone, higher up.
      \<open>x\<close> is the left edge of the text, 0.8 or 7.2.\<close>
  "column_body x col_title col_content theme default_font =
     (let cfg = body_config 15 (text_dark theme)
                  (case col_content of Some c \<Rightarrow> c | None \<Rightarrow> Dict empty_config)
      in if col_title \<noteq> []
         then [add_decorative_bar x 1.7 1.5 0.05 (accent theme),
               add_text_box x 1.85 5.3 0.5
                 ((plain_text col_title 18 (primary theme))
                    \<lparr>tc_bold := Some True, tc_align := Some ''LEFT''\<rparr>) default_font,
               add_text_box x 2.5 5.3 3.8 cfg default_font]
         else [add_text_box x 1.8 5.3 4.5 cfg default_font])"

definition build_two_column_slide :: "slide list \<Rightarrow> slide_data \<Rightarrow> theme \<Rightarrow> string \<Rightarrow> slide list option" where
  \<comment> \<open>\<open>_build_two_column_slide(prs, slide_data, theme, default_font)\<close>\<close>
  "build_two_column_slide prs slide_data theme default_font =
     new_slide prs (apply_bg_solid (bg theme))
       (title_bar theme (or_default (sd_title slide_data) []) default_font
        @ [add_rounded_rect 0.5 1.5 5.9 5.2 (card_bg theme) (card_border theme) 1.5 True]
        @ column_body 0.8 (or_default (sd_left_title slide_data) [])
            (sd_left_column slide_data) theme default_font
        @ [add_rounded_rect 6.9 1.5 5.9 5.2 (card_bg theme) (card_border theme) 1.5 True]
        @ column_body 7.2 (or_default (sd_right_title slide_data) [])
            (sd_right_column slide_data) theme default_font
        @ add_slide_footer (Suc (length prs)) theme default_font)"

definition three_column_calls :: "theme \<Rightarrow> string \<Rightarrow> nat \<Rightarrow> column \<Rightarrow> shape option list" where
  \<comment> \<open>The body of the loop \<open>for i, col in enumerate(columns[:3])\<close>.\<close>
  "three_column_calls theme default_font i col =
     (let col_width = 3.7; gap = 0.45; start_x = 0.5;
          x = start_x + of_nat i * (col_width + gap);
          icon = co_icon col;
          title_top = (if icon = [] then 2.0 else 2.7);
          content_top = title_top + 0.6
      in [add_rounded_rect x 1.5 col_width 5.2 (card_bg theme) (card_border theme) 1.5 True,
          add_decorative_bar (x + 0.3) 1.7 1.2 0.05 (accent theme)]
         @ (if icon \<noteq> []
            then [add_text_box (x + 0.3) 1.9 1 0.8
                    ((plain_text icon 28 (primary theme))
                       \<lparr>tc_align := Some ''LEFT'', tc_bold := Some True\<rparr>) default_font]
            else [])
         @ (if co_title col \<noteq> []
            then [add_text_box (x + 0.3) title_top (col_width - 0.6) 0.5
                    ((plain_text (co_title col) 16 (primary theme))
                       \<lparr>tc_bold := Some True, tc_align := Some ''LEFT''\<rparr>) default_font]
            else [])
         @ [add_text_box (x + 0.3) content_top (col_width - 0.6)
              (5.2 - (content_top - 1.5) + 0.3)
              (body_config 13 (text_dark theme)
                 (case co_content col of Some c \<Rightarrow> c | None \<Rightarrow> Dict empty_config))
              default_font])"

definition build_three_column_slide :: "slide list \<Rightarrow> slide_data \<Rightarrow> theme \<Rightarrow> string \<Rightarrow> slide list option" where
  \<comment> \<open>\<open>_build_three_column_slide(prs, slide_data, theme, default_font)\<close>\<close>
  "build_three_column_slide prs slide_data theme default_font =
     new_slide prs (apply_bg_solid (bg theme))
       (title_bar theme (or_default (sd_title slide_data) []) default_font
        @ concat (map (\<lambda>(i, col). three_column_calls theme default_font i col)
                    (enumerate 0 (take 3 (sd_columns slide_data))))
        @ add_slide_footer (Suc (length prs)) theme default_font)"

subsection \<open>Card grid\<close>

definition cards_grid :: "nat \<Rightarrow> nat \<times> nat \<times> nat" where
  \<comment> \<open>The grid of \<open>_build_cards_slide\<close> for \<open>n = len(cards)\<close>: \<open>(cols_count, rows_count)\<close> and
      the \<open>n\<close> the loop runs over, which the last branch sets to 6 with \<open>cards = cards[:6]\<close>.\<close>
  "cards_grid n =
     (if n \<le> 3 then (n, 1, n)
      else if n \<le> 4 then (2, 2, n)
      else if n \<le> 6 then (3, 2, n)
      else (3, 2, 6))"

definition card_w :: "nat \<Rightarrow> real" where
  \<comment> \<open>\<open>card_w = (total_w - (cols_count - 1) * gap) / cols_count\<close> with \<open>total_w = 12.3\<close>,
      \<open>gap = 0.35\<close>\<close>
  "card_w cols_count = (12.3 - (of_nat cols_count - 1) * 0.35) / of_nat cols_count"

definition card_h :: "nat \<Rightarrow> real" where
  \<comment> \<open>\<open>card_h = (total_h - (rows_count - 1) * gap) / rows_count\<close> with
      \<open>total_h = 5.0 if rows_count == 1 else 4.8\<close>\<close>
  "card_h rows_count =
     ((if rows_count = 1 then 5.0 else 4.8) - (of_nat rows_count - 1) * 0.35) / of_nat rows_count"

definition card_region :: "nat \<Rightarrow> nat \<Rightarrow> nat \<Rightarrow> real \<times> real \<times> real \<times> real" where
  \<comment> \<open>\<open>(cx, cy, card_w, card_h)\<close> of the card with index \<open>idx\<close>: \<open>row = idx // cols_count\<close>,
      \<open>col = idx % cols_count\<close>, \<open>cx = start_x + col * (card_w + gap)\<close>,
      \<open>cy = start_y + row * (card_h + gap)\<close>\<close>
  "card_region cols_count rows_count idx =
     (0.5 + of_nat (idx mod cols_count) * (card_w cols_count + 0.35),
      1.4 + of_nat (idx div cols_count) * (card_h rows_count + 0.35),
      card_w cols_count, card_h rows_count)"

definition card_calls :: "theme \<Rightarrow> string \<Rightarrow> nat \<Rightarrow> nat \<Rightarrow> nat \<Rightarrow> card \<Rightarrow> shape option list" where
  \<comment> \<open>The body of the loop \<open>for idx, card in enumerate(cards)\<close>, \<open>crd\<close> being the card.\<close>
  "card_calls theme default_font cols_count rows_count idx crd =
     (case card_region cols_count rows_count idx of (cx, cy, w, h) \<Rightarrow>
      let y1 = cy + 0.3 + (if cd_icon crd \<noteq> [] then 0.55 else 0);
          y2 = y1 + (if cd_title crd \<noteq> [] then 0.45 else 0)
      in [add_rounded_rect cx cy w h (card_bg theme) (card_border theme) 1.5 True,
          add_decorative_bar (cx + 0.25) (cy + 0.15) 0.8 0.04 (accent theme)]
         @ (if cd_icon crd \<noteq> []
            then [add_text_box (cx + 0.25) (cy + 0.3) 1 0.6
                    ((plain_text (cd_icon crd) 22 (primary theme))
                       \<lparr>tc_bold := Some True, tc_align := Some ''LEFT''\<rparr>) default_font]
            else [])
         @ (if cd_title crd \<noteq> []
            then [add_text_box (cx + 0.25) y1 (w - 0.5) 0.4
                    ((plain_text (cd_title crd) 14 (primary theme))
                       \<lparr>tc_bold := Some True, tc_align := Some ''LEFT''\<rparr>) default_font]
            else [])
         @ (case if_truthy (cd_content crd) of
              Some card_content \<Rightarrow>
                [add_text_box (cx + 0.25) y2 (w - 0.5) (h - (y2 - cy) - 0.2)
                   (setdefault_line_spacing 1.3 (body_config 12 (text_dark theme) card_content))
                   default_font]
            | None \<Rightarrow> []))"

definition build_cards_slide :: "slide list \<Rightarrow> slide_data \<Rightarrow> theme \<Rightarrow> string \<Rightarrow> slide list option" where
  \<comment> \<open>\<open>_build_cards_slide(prs, slide_data, theme, default_font)\<close>\<close>
  "build_cards_slide prs slide_data theme default_font =
     new_slide prs (apply_bg_solid (bg theme))
       (title_bar theme (or_default (sd_title slide_data) []) default_font
        @ (let cards = sd_cards slide_data; n = length cards in
           if n = 0 then add_slide_footer (Suc (length prs)) theme default_font
           else case cards_grid n of (cols_count, rows_count, n') \<Rightarrow>
             concat (map (\<lambda>(idx, c). card_calls theme default_font cols_count rows_count idx c)
                       (enumerate 0 (take n' cards)))
             @ add_slide_footer (Suc (length prs)) theme default_font))"

subsection \<open>Chart, stats and timeline slides\<close>

definition empty_chart :: chart_config where
  \<comment> \<open>The empty dictionary as a chart description.\<close>
  "empty_chart = \<lparr>cc_chart_type = None, cc_title = [], cc_x_label = [], cc_y_label = [],
     cc_categories = [], cc_series = [], cc_colors = [], cc_show_legend = None,
     cc_legend_position = None, cc_show_data_labels = False, cc_number_format = None\<rparr>"

definition build_chart_slide :: "slide list \<Rightarrow> slide_data \<Rightarrow> theme \<Rightarrow> string \<Rightarrow> slide list option" where
  \<comment> \<open>\<open>_build_chart_slide(prs, slide_data, theme, default_font)\<close>\<close>
  "build_chart_slide prs slide_data theme default_font =
     new_slide prs (apply_bg_solid (bg theme))
       (title_bar theme (or_default (sd_title slide_data) []) default_font
        @ (let chart_config = or_default (sd_chart slide_data) empty_chart in
           case if_truthy (sd_description slide_data) of
             Some description \<Rightarrow>
               [map_option ChartFrame (add_native_chart chart_config 0.5 1.4 8 5.2),
                add_rounded_rect 8.8 1.5 4.2 5.0 (card_bg theme) (card_border theme) 1 False,
                add_text_box 9.0 1.7 3.8 4.6
                  (setdefault_line_spacing 1.4 (body_config 14 (text_dark theme) description))
                  default_font]
           | None \<Rightarrow> [map_option ChartFrame (add_native_chart chart_config 0.8 1.4 11.5 5.3)])
        @ add_slide_footer (Suc (length prs)) theme default_font)"

definition stat_card_w :: "nat \<Rightarrow> real" where
  \<comment> \<open>\<open>card_w = (total_w - (n - 1) * gap) / n if n <= 5 else (total_w - 4 * gap) / 5\<close>\<close>
  "stat_card_w n = (if n \<le> 5 then (12.3 - (of_nat n - 1) * 0.4) / of_nat n
                    else (12.3 - 4 * 0.4) / 5)"

definition stat_calls :: "theme \<Rightarrow> string \<Rightarrow> real \<Rightarrow> nat \<Rightarrow> stat \<Rightarrow> shape option list" where
  \<comment> \<open>The body of the loop \<open>for i, stat in enumerate(stats[:5])\<close>.\<close>
  "stat_calls theme default_font w i stat =
     (let cx = 0.5 + of_nat i * (w + 0.4); card_y = 2.2;
          y1 = card_y + 0.3 + (if st_icon stat \<noteq> [] then 0.6 else 0);
          y2 = y1 + 1.0
      in [add_rounded_rect cx card_y w 3.5 (card_bg theme) (card_border theme) 1.5 True,
          add_decorative_bar cx card_y w 0.06 (accent theme)]
         @ (if st_icon stat \<noteq> []
            then [add_text_box (cx + 0.2) (card_y + 0.3) (w - 0.4) 0.6
                    ((plain_text (st_icon stat) 24 (accent theme))\<lparr>tc_align := Some ''CENTER''\<rparr>)
                    default_font]
            else [])
         @ [add_text_box (cx + 0.2) y1 (w - 0.4) 1.0
              ((plain_text (or_default (st_value stat) ''0'') 36 (primary theme))
                 \<lparr>tc_bold := Some True, tc_align := Some ''CENTER'',
                  tc_vertical_anchor := Some ''MIDDLE''\<rparr>) default_font]
         @ (if st_label stat \<noteq> []
            then [add_text_box (cx + 0.2) y2 (w - 0.4) 0.6
                    ((plain_text (st_label stat) 14 (text_dark theme))\<lparr>tc_align := Some ''CENTER''\<rparr>)
                    default_font]
            else [])
         @ (if st_description stat \<noteq> []
            then [add_text_box (cx + 0.2) (y2 + 0.55) (w - 0.4) 0.8
                    ((plain_text (st_description stat) 11 ''#888888'')
                       \<lparr>tc_align := Some ''CENTER'', tc_line_spacing := Some 1.2\<rparr>) default_font]
            else []))"

definition build_stats_slide :: "slide list \<Rightarrow> slide_data \<Rightarrow> theme \<Rightarrow> string \<Rightarrow> slide list option" where
  \<comment> \<open>\<open>_build_stats_slide(prs, slide_data, theme, default_font)\<close>\<close>
  "build_stats_slide prs slide_data theme default_font =
     new_slide prs (apply_bg_solid (bg theme))
       (title_bar theme (or_default (sd_title slide_data) []) default_font
        @ (let stats = sd_stats slide_data; n = length stats in
           if n = 0 then add_slide_footer (Suc (length prs)) theme default_font
           else concat (map (\<lambda>(i, stat). stat_calls theme default_font (stat_card_w n) i stat)
                          (enumerate 0 (take 5 stats)))
                @ add_slide_footer (Suc (length prs)) theme default_font))"

definition step_width :: "nat \<Rightarrow> real" where
  \<comment> \<open>\<open>step_width = 11.7 / n\<close>\<close>
  "step_width n = 11.7 / of_nat n"

definition step_cx :: "nat \<Rightarrow> nat \<Rightarrow> real" where
  \<comment> \<open>\<open>cx = start_x + i * step_width + step_width / 2\<close> with \<open>start_x = 0.8\<close>\<close>
  "step_cx n i = 0.8 + of_nat i * step_width n + step_width n / 2"

definition step_calls :: "theme \<Rightarrow> string \<Rightarrow> nat \<Rightarrow> nat \<Rightarrow> step \<Rightarrow> shape option list" where
  \<comment> \<open>The body of the loop \<open>for i, step in enumerate(steps)\<close> of the timeline, \<open>stp\<close> being
      the step.\<close>
  "step_calls theme default_font n i stp =
     (let line_y = 3.8; node_size = 0.4; cx = step_cx n i; sw = step_width n;
          label = (\<lambda>ytop. add_text_box (cx - sw / 2 + 0.1) ytop (sw - 0.2) 0.4
                     ((plain_text (stp_time_label stp) 11 (accent theme))
                        \<lparr>tc_bold := Some True, tc_align := Some ''CENTER''\<rparr>) default_font);
          title = (\<lambda>ytop. add_text_box (cx - sw / 2 + 0.1) ytop (sw - 0.2) 0.5
                     ((plain_text (stp_title stp) 14 (primary theme))
                        \<lparr>tc_bold := Some True, tc_align := Some ''CENTER''\<rparr>) default_font);
          desc = (\<lambda>ytop. add_text_box (cx - sw / 2 + 0.1) ytop (sw - 0.2) 1.2
                     ((plain_text (stp_description stp) 11 (text_dark theme))
                        \<lparr>tc_align := Some ''CENTER'', tc_line_spacing := Some 1.2\<rparr>) default_font)
      in [add_circle (cx - node_size / 2) (line_y - node_size / 2 + 0.02) node_size
            (accent theme) (primary theme) 2,
          add_text_box (cx - node_size / 2) (line_y - node_size / 2 + 0.02) node_size node_size
            ((plain_text (dec_digits (i + 1)) 12 (text_light theme))
               \<lparr>tc_bold := Some True, tc_align := Some ''CENTER'',
                tc_vertical_anchor := Some ''MIDDLE'', tc_margins := Some (0, 0, 0, 0)\<rparr>)
            default_font]
         @ (if i mod 2 = 0
            then (if stp_time_label stp \<noteq> [] then [label 1.5] else [])
                 @ [title 1.9]
                 @ (if stp_description stp \<noteq> [] then [desc 2.4] else [])
            else [title 4.2]
                 @ (if stp_time_label stp \<noteq> [] then [label 4.7] else [])
                 @ (if stp_description stp \<noteq> [] then [desc 5.1] else [])))"

definition build_timeline_slide :: "slide list \<Rightarrow> slide_data \<Rightarrow> theme \<Rightarrow> string \<Rightarrow> slide list option" where
  \<comment> \<open>\<open>_build_timeline_slide(prs, slide_data, theme, default_font)\<close>\<close>
  "build_timeline_slide prs slide_data theme default_font =
     new_slide prs (apply_bg_solid (bg theme))
       (title_bar theme (or_default (sd_title slide_data) []) default_font
        @ (let steps = sd_steps slide_data; n = length steps in
           if n = 0 then add_slide_footer (Suc (length prs)) theme default_font
           else [add_decorative_bar 0.8 3.8 11.7 0.04 (secondary theme)]
                @ concat (map (\<lambda>(i, stp). step_calls theme default_font n i stp)
                            (enumerate 0 steps))
                @ add_slide_footer (Suc (length prs)) theme default_font))"

subsection \<open>Table, image, comparison, quote and ending slides\<close>

definition empty_table :: table_config where
  \<comment> \<open>The empty dictionary as a table description.\<close>
  "empty_table = \<lparr>tcf_left = None, tcf_top = None, tcf_width = None, tcf_height = None,
     tcf_data = [], tcf_header_bg = None, tcf_header_fg = None, tcf_stripe_colors = None,
     tcf_font_size = None, tcf_header_font_size = None\<rparr>"

definition build_table_slide :: "slide list \<Rightarrow> slide_data \<Rightarrow> theme \<Rightarrow> string \<Rightarrow> slide list option" where
  \<comment> \<open>\<open>_build_table_slide(prs, slide_data, theme, default_font)\<close>\<close>
  "build_table_slide prs slide_data theme default_font =
     new_slide prs (apply_bg_solid (bg theme))
       (title_bar theme (or_default (sd_title slide_data) []) default_font
        @ (let t = or_default (sd_table slide_data) empty_table;
               table_config = t\<lparr>tcf_left := Some (or_default (tcf_left t) 0.5),
                                tcf_top := Some (or_default (tcf_top t) 1.5),
                                tcf_width := Some (or_default (tcf_width t) 12.3)\<rparr>
           in add_styled_table table_config theme default_font)
        @ add_slide_footer (Suc (length prs)) theme default_font)"

definition build_image_slide ::
  "env \<Rightarrow> slide list \<Rightarrow> slide_data \<Rightarrow> theme \<Rightarrow> string \<Rightarrow> string \<Rightarrow> slide list option" where
  \<comment> \<open>\<open>_build_image_slide(prs, slide_data, theme, default_font, workspace)\<close>\<close>
  "build_image_slide env prs slide_data theme default_font workspace =
     new_slide prs (apply_bg_solid (bg theme))
       (title_bar theme (or_default (sd_title slide_data) []) default_font
        @ (let img_path = sd_image_path slide_data;
               full_path = (if py_isabs img_path then img_path else py_join workspace img_path)
           in if img_path \<noteq> [] \<and> env_image env full_path \<noteq> Missing
              then (case if_truthy (sd_description slide_data) of
                      Some description \<Rightarrow>
                        [add_picture env full_path 0.8 1.5 7.5 5,
                         add_text_box 8.8 1.5 4 5 (body_config 14 (text_dark theme) description)
                           default_font]
                    | None \<Rightarrow> [add_picture env full_path 1.5 1.5 10 5])
              else [])
        @ (if sd_caption slide_data \<noteq> []
           then [add_text_box 0.8 6.5 11.5 0.5
                   ((plain_text (sd_caption slide_data) 12 ''#888888'')
                      \<lparr>tc_italic := Some True, tc_align := Some ''CENTER''\<rparr>) default_font]
           else [])
        @ add_slide_footer (Suc (length prs)) theme default_font)"

definition bullets_config :: "item list \<Rightarrow> string \<Rightarrow> text_config" where
  \<comment> \<open>\<open>{"bullets": items, "font_size": 14, "color": color, "line_spacing": 1.5}\<close>\<close>
  "bullets_config items color =
     empty_config\<lparr>tc_bullets := Some items, tc_font_size := Some 14, tc_color := Some color,
                   tc_line_spacing := Some 1.5\<rparr>"

definition build_comparison_slide :: "slide list \<Rightarrow> slide_data \<Rightarrow> theme \<Rightarrow> string \<Rightarrow> slide list option" where
  \<comment> \<open>\<open>_build_comparison_slide(prs, slide_data, theme, default_font)\<close>\<close>
  "build_comparison_slide prs slide_data theme default_font =
     (let left_color = or_default (sd_left_color slide_data) (primary theme);
          right_color = or_default (sd_right_color slide_data) (accent theme)
      in new_slide prs (apply_bg_solid (bg theme))
       (title_bar theme (or_default (sd_title slide_data) []) default_font
        @ [add_rounded_rect 0.5 1.5 5.9 5.2 (card_bg theme) left_color 2 True,
           add_decorative_bar 0.5 1.5 5.9 0.06 left_color,
           add_text_box 0.8 1.7 5.3 0.6
             ((plain_text (or_default (sd_left_title slide_data) ''Option A'') 20 left_color)
                \<lparr>tc_bold := Some True, tc_align := Some ''CENTER''\<rparr>) default_font]
        @ (if sd_left_items slide_data \<noteq> []
           then [add_text_box 0.8 2.5 5.3 3.8
                   (bullets_config (sd_left_items slide_data) (text_dark theme)) default_font]
           else [])
        @ [add_circle 6.1 3.5 0.8 (secondary theme) [] 0,
           add_text_box 6.1 3.5 0.8 0.8
             ((plain_text ''VS'' 14 (text_light theme))
                \<lparr>tc_bold := Some True, tc_align := Some ''CENTER'',
                 tc_vertical_anchor := Some ''MIDDLE'', tc_margins := Some (0, 0, 0, 0)\<rparr>)
             default_font,
           add_rounded_rect 6.9 1.5 5.9 5.2 (card_bg theme) right_color 2 True,
           add_decorative_bar 6.9 1.5 5.9 0.06 right_color,
           add_text_box 7.2 1.7 5.3 0.6
             ((plain_text (or_default (sd_right_title slide_data) ''Option B'') 20 right_color)
                \<lparr>tc_bold := Some True, tc_align := Some ''CENTER''\<rparr>) default_font]
        @ (if sd_right_items slide_data \<noteq> []
           then [add_text_box 7.2 2.5 5.3 3.8
                   (bullets_config (sd_right_items slide_data) (text_dark theme)) default_font]
           else [])
        @ add_slide_footer (Suc (length prs)) theme default_font))"

definition utf8_left_quote :: string where
  \<comment> \<open>U+201C, as its UTF-8 bytes\<close>
  "utf8_left_quote = map char_of [226, 128, 156 :: nat]"

definition utf8_em_dash :: string where
  \<comment> \<open>U+2014, as its UTF-8 bytes\<close>
  "utf8_em_dash = map char_of [226, 128, 148 :: nat]"

definition build_quote_slide :: "slide list \<Rightarrow> slide_data \<Rightarrow> theme \<Rightarrow> string \<Rightarrow> slide list option" where
  \<comment> \<open>\<open>_build_quote_slide(prs, slide_data, theme, default_font)\<close>\<close>
  "build_quote_slide prs slide_data theme default_font =
     new_slide prs (apply_bg_gradient (gradient_start theme) (gradient_end theme) 225)
       ([Option.bind (lighten (accent theme) 0.2)
           (\<lambda>c. add_text_box 1 1.2 3 2
              ((plain_text utf8_left_quote 120 c)
                 \<lparr>tc_bold := Some True, tc_align := Some ''LEFT'',
                  tc_vertical_anchor := Some ''TOP''\<rparr>) default_font),
         add_text_box 2 2.5 9.5 3
           ((plain_text (or_default (sd_quote slide_data) (or_default (sd_text slide_data) []))
               28 (text_light theme))
              \<lparr>tc_italic := Some True, tc_align := Some ''CENTER'',
               tc_vertical_anchor := Some ''MIDDLE'', tc_line_spacing := Some 1.5\<rparr>) default_font]
        @ (if sd_author slide_data \<noteq> []
           then [add_decorative_bar 5.5 5.5 2 0.04 (accent theme),
                 Option.bind (lighten (text_light theme) 0.2)
                   (\<lambda>c. add_text_box 2 5.7 9.5 0.6
                      ((plain_text (utf8_em_dash @ '' '' @ sd_author slide_data) 18 c)
                         \<lparr>tc_align := Some ''CENTER''\<rparr>) default_font)]
           else [])
        @ [add_decorative_bar 0 7.25 13.333 0.08 (accent theme)])"

definition build_ending_slide :: "slide list \<Rightarrow> slide_data \<Rightarrow> theme \<Rightarrow> string \<Rightarrow> slide list option" where
  \<comment> \<open>\<open>_build_ending_slide(prs, slide_data, theme, default_font)\<close>\<close>
  "build_ending_slide prs slide_data theme default_font =
     new_slide prs (apply_bg_gradient (gradient_start theme) (gradient_end theme) 225)
       ([Option.bind (lighten (accent theme) 0.15) (\<lambda>c. add_circle 10 (- 1) 3.5 c [] 0),
         Option.bind (darken (primary theme) 0.5) (\<lambda>c. add_circle (- 1) 5 3 c [] 0),
         add_text_box 1 2.0 11.3 2.5
           ((plain_text (or_default (sd_title slide_data)
                           (or_default (sd_text slide_data) ''Thank You'')) 48 (text_light theme))
              \<lparr>tc_bold := Some True, tc_align := Some ''CENTER'',
               tc_vertical_anchor := Some ''MIDDLE''\<rparr>) default_font]
        @ (if sd_subtitle slide_data \<noteq> []
           then [Option.bind (lighten (text_light theme) 0.2)
                   (\<lambda>c. add_text_box 2 4.5 9.3 1.0
                      ((plain_text (sd_subtitle slide_data) 20 c)\<lparr>tc_align := Some ''CENTER''\<rparr>)
                      default_font)]
           else [])
        @ (if sd_contact slide_data \<noteq> []
           then [Option.bind (lighten (text_light theme) 0.3)
                   (\<lambda>c. add_text_box 2 5.5 9.3 0.8
                      ((plain_text (sd_contact slide_data) 16 c)\<lparr>tc_align := Some ''CENTER''\<rparr>)
                      default_font)]
           else [])
        @ [add_decorative_bar 0 7.25 13.333 0.08 (accent theme)])"

section \<open>Content block dispatcher (ppt\_tools.py)\<close>

datatype builder =
    Plain "slide list \<Rightarrow> slide_data \<Rightarrow> theme \<Rightarrow> string \<Rightarrow> slide list option"
  | WithWorkspace "slide list \<Rightarrow> slide_data \<Rightarrow> theme \<Rightarrow> string \<Rightarrow> string \<Rightarrow> slide list option"

definition SLIDE_BUILDERS :: "env \<Rightarrow> (string \<times> builder) list" where
  \<comment> \<open>The registry. A builder is a function of four arguments, the image builder of
      five; the environment is the file system the two builders that place pictures
      look into.\<close>
  "SLIDE_BUILDERS env =
     [(''title'', Plain build_title_slide),
      (''cover'', Plain build_title_slide),
      (''section'', Plain build_section_slide),
      (''divider'', Plain build_section_slide),
      (''content'', Plain (build_content_slide env)),
      (''text'', Plain (build_content_slide env)),
      (''two_column'', Plain build_two_column_slide),
      (''two_columns'', Plain build_two_column_slide),
      (''three_column'', Plain build_three_column_slide),
      (''three_columns'', Plain build_three_column_slide),
      (''cards'', Plain build_cards_slide),
      (''chart'', Plain build_chart_slide),
      (''stats'', Plain build_stats_slide),
      (''statistics'', Plain build_stats_slide),
      (''timeline'', Plain build_timeline_slide),
      (''table'', Plain build_table_slide),
      (''image'', WithWorkspace (build_image_slide env)),
      (''comparison'', Plain build_comparison_slide),
      (''quote'', Plain build_quote_slide),
      (''ending'', Plain build_ending_slide),
      (''thank_you'', Plain build_ending_slide)]"

definition normalized_type :: "slide_data \<Rightarrow> string" where
  \<comment> \<open>\<open>slide_data.get("slide_type", "content").lower().strip()\<close>\<close>
  "normalized_type slide_data = py_strip (py_lower (or_default (sd_slide_type slide_data) ''content''))"

definition dispatch_slide ::
  "env \<Rightarrow> string \<Rightarrow> slide list \<Rightarrow> slide_data \<Rightarrow> theme \<Rightarrow> string \<Rightarrow> slide list option" where
  \<comment> \<open>The body of the loop \<open>for slide_data in slides_content\<close>. Calling a builder with
      the wrong number of arguments is a TypeError.\<close>
  "dispatch_slide env workspace prs slide_data theme default_font =
     (let slide_type = normalized_type slide_data in
      case map_of (SLIDE_BUILDERS env) slide_type of
        Some builder \<Rightarrow>
          if slide_type = ''image''
          then (case builder of
                  WithWorkspace b \<Rightarrow> b prs slide_data theme default_font workspace
                | Plain b \<Rightarrow> None)
          else (case builder of
                  Plain b \<Rightarrow> b prs slide_data theme default_font
                | WithWorkspace b \<Rightarrow> None)
      | None \<Rightarrow> build_content_slide env prs slide_data theme default_font)"

fun build_slides ::
  "env \<Rightarrow> string \<Rightarrow> theme \<Rightarrow> string \<Rightarrow> slide list \<Rightarrow> slide_data list \<Rightarrow> slide list option" where
  \<comment> \<open>The loop over \<open>slides_content\<close>, from the presentation built so far.\<close>
  "build_slides env workspace theme default_font prs [] = Some prs"
| "build_slides env workspace theme default_font prs (slide_data # rest) =
     (case dispatch_slide env workspace prs slide_data theme default_font of
        None \<Rightarrow> None
      | Some prs' \<Rightarrow> build_slides env workspace theme default_font prs' rest)"

section \<open>Entry point (ppt\_tools.py, generate\_pptx\_presentation)\<close>

record settings =
  ps_theme :: "string option"
  ps_custom_colors :: "custom_colors option"
  ps_default_font :: "string option"
  ps_author :: "string option"
  ps_title :: "string option"

record success =
  r_file_path :: string
  r_slides_count :: nat
  r_theme :: string
  r_message :: string

datatype result = Success success | Error string

datatype outcome = Returned result | Raised

definition py_dirname :: "string \<Rightarrow> string" where
  \<comment> \<open>\<open>os.path.dirname\<close>: the part up to the last slash, without trailing slashes
      unless it is slashes only\<close>
  "py_dirname p =
     (let head = rev (dropWhile (\<lambda>c. c \<noteq> CHR ''/'') (rev p)) in
      if head \<noteq> [] \<and> \<not> list_all (\<lambda>c. c = CHR ''/'') head
      then rev (dropWhile (\<lambda>c. c = CHR ''/'') (rev head)) else head)"

definition default_font_name :: string where
  \<comment> \<open>The default of \<open>default_font\<close>, four CJK characters, as their UTF-8 bytes\<close>
  "default_font_name = map char_of [229, 190, 174, 232, 189, 175, 233, 155, 133, 233, 187, 145 :: nat]"

definition generate_pptx_presentation ::
  "env \<Rightarrow> string \<Rightarrow> slide_data list \<Rightarrow> settings option \<Rightarrow> outcome" where
  \<comment> \<open>\<open>generate_pptx_presentation(file_path, slides_content, presentation_settings)\<close>.
      The author and title metadata are set on the document and reach no result.\<close>
  "generate_pptx_presentation env file_path slides_content presentation_settings =
     (case env_workspace env of
        None \<Rightarrow> Returned (Error ''Workspace not configured. Please set up workspace first.'')
      | Some workspace \<Rightarrow>
          if workspace = []
          then Returned (Error ''Workspace not configured. Please set up workspace first.'')
          else
            let full_path = py_join workspace file_path;
                dir = py_dirname full_path
            in if \<not> env_makedirs_ok env (if dir \<noteq> [] then dir else workspace) then Raised
               else
                 let theme_name = or_default (Option.bind presentation_settings ps_theme) ''midnight'';
                     theme = (case Option.bind presentation_settings ps_custom_colors of
                                Some cu \<Rightarrow> merge_theme (get_theme theme_name) cu
                              | None \<Rightarrow> get_theme theme_name);
                     default_font = or_default (Option.bind presentation_settings ps_default_font)
                                      default_font_name
                 in case build_slides env workspace theme default_font [] slides_content of
                      None \<Rightarrow> Raised
                    | Some prs \<Rightarrow>
                        if \<not> env_save_ok env full_path then Raised
                        else Returned (Success
                          \<lparr>r_file_path = full_path, r_slides_count = length prs,
                           r_theme = theme_name,
                           r_message = ''Presentation saved with '' @ dec_digits (length prs)
                                     @ '' slides using '' @ [CHR 0x27] @ theme_name
                                     @ [CHR 0x27] @ '' theme.''\<rparr>))"

section \<open>Notions used to state the properties\<close>

type_synonym region = "real \<times> real \<times> real \<times> real"

definition overlap :: "region \<Rightarrow> region \<Rightarrow> bool" where
  \<comment> \<open>Two rectangles \<open>(x, y, width, height)\<close> share interior points.\<close>
  "overlap r s =
     (case r of (x1, y1, w1, h1) \<Rightarrow> case s of (x2, y2, w2, h2) \<Rightarrow>
        x1 < x2 + w2 \<and> x2 < x1 + w1 \<and> y1 < y2 + h2 \<and> y2 < y1 + h1)"

definition shadowed_rects :: "shape list \<Rightarrow> region list" where
  \<comment> \<open>The regions of the rounded rectangles drawn with a shadow, in drawing order: on
      a cards slide these are the card backgrounds (the title bar has no shadow).\<close>
  "shadowed_rects shapes =
     List.map_filter
       (\<lambda>s. case s of RoundedRect x y w h f b shadow \<Rightarrow> if shadow then Some (x, y, w, h) else None
                     | _ \<Rightarrow> None)
       shapes"



definition no_footer_types :: "string list" where
  \<comment> \<open>The registry keys of the four builders that do not call \<open>_add_slide_footer\<close>
      (title, section, quote, ending).\<close>
  "no_footer_types = [''title'', ''cover'', ''section'', ''divider'', ''quote'', ''ending'', ''thank_you'']"

definition empty_slide :: slide_data where
  \<comment> \<open>The empty dictionary as a slide.\<close>
  "empty_slide =
     \<lparr>sd_slide_type = None, sd_title = None, sd_subtitle = [], sd_author = [], sd_date = [],
      sd_section_number = None, sd_content = None, sd_elements = [], sd_left_title = None,
      sd_right_title = None, sd_left_column = None, sd_right_column = None, sd_columns = [],
      sd_cards = [], sd_chart = None, sd_description = None, sd_stats = [], sd_steps = [],
      sd_table = None, sd_image_path = [], sd_caption = [], sd_left_items = [],
      sd_right_items = [], sd_left_color = None, sd_right_color = None, sd_quote = None,
      sd_text = None, sd_contact = []\<rparr>"

definition plain_env :: env where
  \<comment> \<open>A workspace \<open>/w\<close> without pictures, where directories can be made and a file can
      be saved to any path that does not name a directory (does not end in a slash).\<close>
  "plain_env = \<lparr>env_workspace = Some ''/w'', env_image = (\<lambda>p. Missing),
                 env_makedirs_ok = (\<lambda>p. True),
                 env_save_ok = (\<lambda>p. p \<noteq> [] \<and> last p \<noteq> CHR ''/'')\<rparr>"

definition furniture :: "theme \<Rightarrow> string \<Rightarrow> string \<Rightarrow> nat \<Rightarrow> rgb \<Rightarrow> rgb \<Rightarrow> shape list" where
  \<comment> \<open>The shapes of a slide that carries nothing but the title bar and the footer:
      \<open>cp\<close> and \<open>ca\<close> are the primary and the accent colour as \<open>_hex\<close> reads them.\<close>
  "furniture theme title default_font slide_num cp ca =
     [RoundedRect 0 0 13.333 1.1 cp None False,
      TextBox 0.8 0.15 11 0.8
        ((plain_text title 26 (text_light theme))
           \<lparr>tc_bold := Some True, tc_align := Some ''LEFT'',
            tc_vertical_anchor := Some ''MIDDLE''\<rparr>) default_font,
      Bar 0.8 1.05 3 0.04 ca,
      Bar 0 7.2 13.333 0.04 ca,
      TextBox 12.2 7.0 0.8 0.3
        ((plain_text (dec_digits slide_num) 10 (secondary theme))
           \<lparr>tc_align := Some ''RIGHT'', tc_vertical_anchor := Some ''MIDDLE''\<rparr>) default_font]"

definition ends_with_footer :: "nat \<Rightarrow> string \<Rightarrow> shape list \<Rightarrow> bool" where
  \<comment> \<open>The last two shapes are the footer: the accent bar and, last, the page-number
      box with the text \<open>str(slide_num)\<close>.\<close>
  "ends_with_footer slide_num default_font shapes =
     (case rev shapes of
        TextBox l t w h cfg f # Bar x y bw bh c # _ \<Rightarrow>
          l = 12.2 \<and> t = 7.0 \<and> w = 0.8 \<and> h = 0.3 \<and> f = default_font \<and>
          tc_text cfg = Some (dec_digits slide_num) \<and>
          x = 0 \<and> y = 7.2 \<and> bw = 13.333 \<and> bh = 0.04
      | _ \<Rightarrow> False)"

definition seven_cards :: slide_data where
  \<comment> \<open>A cards slide with seven cards that carry a title only.\<close>
  "seven_cards = empty_slide\<lparr>sd_cards :=
     map (\<lambda>t. \<lparr>cd_icon = [], cd_title = t, cd_content = None\<rparr>)
       [''A'', ''B'', ''C'', ''D'', ''E'', ''F'', ''G'']\<rparr>"

definition two_steps :: slide_data where
  \<comment> \<open>A timeline slide with two steps that carry a title only.\<close>
  "two_steps = empty_slide\<lparr>sd_slide_type := Some ''timeline'', sd_steps :=
     [\<lparr>stp_title = ''Plan'', stp_description = [], stp_time_label = []\<rparr>,
      \<lparr>stp_title = ''Ship'', stp_description = [], stp_time_label = []\<rparr>]\<rparr>"

section \<open>Verification: color model\<close>

text \<open>
  The digit functions recurse on their own argument without a pattern, so their
  equations are used only where a proof asks for them.
\<close>

declare hex_digits.simps [simp del] dec_digits.simps [simp del]

lemmas color_eval = darken_def lighten_def channels_def lstrip_hash_def hexval_def py_int_def
  format_02x_def hex_char_def char_of_def bit_Suc_0_iff hex6_def hex_digits.simps
















section \<open>Verification: gradient\<close>




section \<open>Verification: charts\<close>

lemma stacked_loop_bottoms:
  assumes "\<forall>s\<in>set ss. length (stacked_vals n s) = n" "length bottom = n"
  shows "\<exists>calls tot. stacked_loop colors n i bottom ss = Some (calls, tot) \<and>
           length calls = length ss \<and> length tot = n \<and>
           (\<forall>k<length ss. bar_height (calls ! k) = stacked_vals n (ss ! k) \<and>
              length (bar_bottom (calls ! k)) = n \<and>
              (\<forall>j<n. bar_bottom (calls ! k) ! j
                       = bottom ! j + (\<Sum>m<k. stacked_vals n (ss ! m) ! j))) \<and>
           (\<forall>j<n. tot ! j = bottom ! j + (\<Sum>m<length ss. stacked_vals n (ss ! m) ! j))"
  using assms
proof (induction ss arbitrary: i bottom)
  case Nil
  then show ?case by simp
next
  case (Cons s ss)
  let ?v = "stacked_vals n s"
  let ?b = "map2 (+) bottom ?v"
  have lv: "length ?v = n" using Cons.prems by simp
  have bc: "np_broadcast n ?v = Some ?v" using lv by (simp add: np_broadcast_def)
  have lb: "length ?b = n" using lv Cons.prems by simp
  have rest: "\<forall>s\<in>set ss. length (stacked_vals n s) = n" using Cons.prems by simp
  from Cons.IH[OF rest lb, of "i + 1"] obtain calls tot where
    run: "stacked_loop colors n (i + 1) ?b ss = Some (calls, tot)"
    and len: "length calls = length ss" "length tot = n"
    and bars: "\<forall>k<length ss. bar_height (calls ! k) = stacked_vals n (ss ! k) \<and>
              length (bar_bottom (calls ! k)) = n \<and>
              (\<forall>j<n. bar_bottom (calls ! k) ! j = ?b ! j + (\<Sum>m<k. stacked_vals n (ss ! m) ! j))"
    and tot: "\<forall>j<n. tot ! j = ?b ! j + (\<Sum>m<length ss. stacked_vals n (ss ! m) ! j)"
    by blast
  let ?c = "\<lparr>bar_x = [0..<n], bar_height = ?v, bar_width = 6 / 10,
               bar_bottom = bottom, bar_label = series_label i s,
               bar_color = colors ! (i mod length colors)\<rparr>"
  have res: "stacked_loop colors n i bottom (s # ss) = Some (?c # calls, tot)"
    using bc run by simp
  have bj: "?b ! j = bottom ! j + ?v ! j" if "j < n" for j
    using that lv Cons.prems by simp
  have shift: "(\<Sum>m<Suc k. stacked_vals n ((s # ss) ! m) ! j)
               = ?v ! j + (\<Sum>m<k. stacked_vals n (ss ! m) ! j)" for k j
    by (simp only: sum.lessThan_Suc_shift nth_Cons_0 nth_Cons_Suc)
  have 1: "bar_height ((?c # calls) ! k) = stacked_vals n ((s # ss) ! k) \<and>
           length (bar_bottom ((?c # calls) ! k)) = n \<and>
           (\<forall>j<n. bar_bottom ((?c # calls) ! k) ! j
                    = bottom ! j + (\<Sum>m<k. stacked_vals n ((s # ss) ! m) ! j))"
    if "k < length (s # ss)" for k
  proof (cases k)
    case 0
    then show ?thesis using Cons.prems by simp
  next
    case (Suc k')
    then have "k' < length ss" using that by simp
    with bars have b: "bar_height (calls ! k') = stacked_vals n (ss ! k')"
       "length (bar_bottom (calls ! k')) = n"
       "\<forall>j<n. bar_bottom (calls ! k') ! j = ?b ! j + (\<Sum>m<k'. stacked_vals n (ss ! m) ! j)"
      by blast+
    show ?thesis unfolding Suc shift using b bj by (simp add: add.assoc)
  qed
  have 2: "tot ! j = bottom ! j + (\<Sum>m<length (s # ss). stacked_vals n ((s # ss) ! m) ! j)"
    if "j < n" for j
    unfolding length_Cons shift using tot that bj[OF that] by (simp add: add.assoc)
  show ?case using res len 1 2 by auto
qed


text \<open>
  Claim C7. In a stacked bar chart whose series each bring a value for every category
  (or no \<open>values\<close> at all, which counts as zeros), series \<open>i\<close> is drawn for category \<open>j\<close>
  on the baseline that is the sum of the values of series \<open>0 .. i-1\<close> at \<open>j\<close>, starting
  from zero, and the running baseline after the last series is the stacked total.
  For the series \<open>[1,2]\<close> and \<open>[3,4]\<close> over two categories the total at category 0 is 4.
\<close>

theorem stacked_bar_baseline:
  assumes "\<forall>s\<in>set (cc_series cfg).
             length (stacked_vals (length (cc_categories cfg)) s) = length (cc_categories cfg)"
  shows "\<exists>plan. chart_image_stacked_bar cfg = Some plan \<and>
           length (sp_bars plan) = length (cc_series cfg) \<and>
           (\<forall>i<length (cc_series cfg).
              bar_height (sp_bars plan ! i)
                = stacked_vals (length (cc_categories cfg)) (cc_series cfg ! i) \<and>
              (\<forall>j<length (cc_categories cfg).
                 bar_bottom (sp_bars plan ! i) ! j
                   = (\<Sum>k<i. stacked_vals (length (cc_categories cfg)) (cc_series cfg ! k) ! j))) \<and>
           (\<forall>j<length (cc_categories cfg).
              sp_total plan ! j
                = (\<Sum>k<length (cc_series cfg).
                     stacked_vals (length (cc_categories cfg)) (cc_series cfg ! k) ! j))"
proof -
  let ?n = "length (cc_categories cfg)"
  have z: "length (replicate ?n (0::real)) = ?n" by simp
  from stacked_loop_bottoms[OF assms z, of "chart_colors cfg" 0] obtain calls tot where
    run: "stacked_loop (chart_colors cfg) ?n 0 (replicate ?n 0) (cc_series cfg) = Some (calls, tot)"
    and len: "length calls = length (cc_series cfg)"
    and bars: "\<forall>k<length (cc_series cfg).
              bar_height (calls ! k) = stacked_vals ?n (cc_series cfg ! k) \<and>
              length (bar_bottom (calls ! k)) = ?n \<and>
              (\<forall>j<?n. bar_bottom (calls ! k) ! j
                 = replicate ?n 0 ! j + (\<Sum>m<k. stacked_vals ?n (cc_series cfg ! m) ! j))"
    and tot: "\<forall>j<?n. tot ! j = replicate ?n 0 ! j
                 + (\<Sum>m<length (cc_series cfg). stacked_vals ?n (cc_series cfg ! m) ! j)"
    by blast
  show ?thesis
    using run len bars tot by (simp add: chart_image_stacked_bar_def Let_def)
qed

theorem stacked_bar_baseline_witness:
  "map_option (\<lambda>p. (map bar_bottom (sp_bars p), sp_total p))
     (chart_image_stacked_bar
        \<lparr>cc_chart_type = Some ''stacked_bar'', cc_title = [], cc_x_label = [], cc_y_label = [],
         cc_categories = [''a'', ''b''],
         cc_series = [\<lparr>s_name = None, s_values = Some [1, 2], s_x_values = [], s_y_values = []\<rparr>,
                      \<lparr>s_name = None, s_values = Some [3, 4], s_x_values = [], s_y_values = []\<rparr>],
         cc_colors = [], cc_show_legend = None, cc_legend_position = None,
         cc_show_data_labels = False, cc_number_format = None\<rparr>)
   = Some ([[0, 0], [1, 2]], [4, 6])"
proof -
  let ?cfg = "\<lparr>cc_chart_type = Some ''stacked_bar'', cc_title = [], cc_x_label = [], cc_y_label = [],
         cc_categories = [''a'', ''b''],
         cc_series = [\<lparr>s_name = None, s_values = Some [1, 2], s_x_values = [], s_y_values = []\<rparr>,
                      \<lparr>s_name = None, s_values = Some [3, 4], s_x_values = [], s_y_values = []\<rparr>],
         cc_colors = [], cc_show_legend = None, cc_legend_position = None,
         cc_show_data_labels = False, cc_number_format = None\<rparr>"
  have h: "\<forall>s\<in>set (cc_series ?cfg).
             length (stacked_vals (length (cc_categories ?cfg)) s) = length (cc_categories ?cfg)"
    by (simp add: stacked_vals_def)
  from stacked_bar_baseline[OF h] obtain plan where
    p: "chart_image_stacked_bar ?cfg = Some plan" by blast
  have v: "map_option (\<lambda>p. (map bar_bottom (sp_bars p), sp_total p)) (chart_image_stacked_bar ?cfg)
        = Some ([[0, 0], [1, 2]], [4, 6])"
    by (simp add: chart_image_stacked_bar_def np_broadcast_def stacked_vals_def)
  show ?thesis using p v by simp
qed





section \<open>Verification: slide builders\<close>

lemma those_append:
  "those (xs @ ys) = Some zs \<longleftrightarrow>
     (\<exists>as bs. those xs = Some as \<and> those ys = Some bs \<and> zs = as @ bs)"
proof (induction xs arbitrary: zs)
  case Nil
  then show ?case by simp
next
  case (Cons x xs)
  show ?case
  proof (cases x)
    case None
    then show ?thesis by simp
  next
    case (Some a)
    show ?thesis
    proof (cases "those (xs @ ys)")
      case None
      then show ?thesis using Some Cons.IH by (auto split: option.splits)
    next
      case (Some zs')
      then show ?thesis using \<open>x = Some a\<close> Cons.IH[of zs'] by (auto split: option.splits)
    qed
  qed
qed

lemma those_concat_map:
  "those (concat (map f xs)) = Some zs \<Longrightarrow>
     \<exists>zss. length zss = length xs \<and> (\<forall>i<length xs. those (f (xs ! i)) = Some (zss ! i)) \<and>
           zs = concat zss"
proof (induction xs arbitrary: zs)
  case Nil
  then show ?case by simp
next
  case (Cons x xs)
  from Cons.prems obtain as bs where
    a: "those (f x) = Some as" and b: "those (concat (map f xs)) = Some bs" and z: "zs = as @ bs"
    by (auto simp: those_append)
  from Cons.IH[OF b] obtain zss where
    l: "length zss = length xs" and e: "\<forall>i<length xs. those (f (xs ! i)) = Some (zss ! i)"
    and c: "bs = concat zss" by blast
  have "\<forall>i<length (x # xs). those (f ((x # xs) ! i)) = Some ((as # zss) ! i)"
    using a e by (auto simp: nth_Cons split: nat.splits)
  then show ?case using l c z by (intro exI[of _ "as # zss"]) auto
qed

lemma those_Cons:
  "those (x # xs) = Some ys \<longleftrightarrow> (\<exists>a as. x = Some a \<and> those xs = Some as \<and> ys = a # as)"
  by (cases x; cases "those xs") auto

lemma new_slide_Some:
  "new_slide prs background calls = Some prs' \<longleftrightarrow>
     (\<exists>b shapes. background = Some b \<and> those calls = Some shapes \<and>
        prs' = prs @ [\<lparr>sl_background = b, sl_shapes = shapes\<rparr>])"
  by (auto simp: new_slide_def split: Option.bind_splits)

lemma add_decorative_bar_Some:
  "add_decorative_bar x y w h color = Some s \<longleftrightarrow>
     (\<exists>c. hex_rgb color = Some c \<and> s = Bar x y w h c)"
  by (auto simp: add_decorative_bar_def)

lemma add_text_box_Some:
  "add_text_box l t w h cfg font = Some s \<longleftrightarrow>
     (add_text_to_frame cfg \<and> s = TextBox l t w h cfg font)"
  by (auto simp: add_text_box_def)

lemma add_rounded_rect_Some:
  "add_rounded_rect l t w h fill bc bw shadow = Some s \<longleftrightarrow>
     (\<exists>f b. hex_rgb fill = Some f \<and> border_of bc bw = Some b \<and>
            s = RoundedRect l t w h f b shadow)"
  by (auto simp: add_rounded_rect_def split: Option.bind_splits)

lemma add_circle_Some:
  "add_circle l t d fill bc bw = Some s \<longleftrightarrow>
     (\<exists>f b. hex_rgb fill = Some f \<and> border_of bc bw = Some b \<and> s = Oval l t d f b)"
  by (auto simp: add_circle_def split: Option.bind_splits)

lemma bind_Some:
  "Option.bind m f = Some y \<longleftrightarrow> (\<exists>x. m = Some x \<and> f x = Some y)"
  by (cases m) auto

lemmas call_Some = those_Cons those_append add_decorative_bar_Some add_text_box_Some
  add_rounded_rect_Some add_circle_Some bind_Some

lemma title_bar_shapes:
  "those (title_bar theme title font) = Some as \<Longrightarrow>
     \<exists>r t b. as = [r, t, b] \<and> shadowed_rects as = [] \<and>
       (\<exists>cp. hex_rgb (primary theme) = Some cp \<and> r = RoundedRect 0 0 13.333 1.1 cp None False) \<and>
       (\<exists>cfg. tc_text cfg = Some title \<and> t = TextBox 0.8 0.15 11 0.8 cfg font) \<and>
       (\<exists>ca. hex_rgb (accent theme) = Some ca \<and> b = Bar 0.8 1.05 3 0.04 ca)"
  apply (clarsimp simp: title_bar_def call_Some border_of_def simp del: those.simps(2))
  apply (simp add: shadowed_rects_def List.map_filter_simps plain_text_def)
  done

lemma footer_shapes:
  "those (add_slide_footer n theme font) = Some bs \<Longrightarrow>
     \<exists>b t. bs = [b, t] \<and> shadowed_rects bs = [] \<and>
       (\<exists>ca. hex_rgb (accent theme) = Some ca \<and> b = Bar 0 7.2 13.333 0.04 ca) \<and>
       (\<exists>cfg. tc_text cfg = Some (dec_digits n) \<and> t = TextBox 12.2 7.0 0.8 0.3 cfg font)"
  apply (clarsimp simp: add_slide_footer_def call_Some simp del: those.simps(2))
  apply (simp add: shadowed_rects_def List.map_filter_simps plain_text_def)
  done




lemmas theme_eval = midnight_def mk_theme_def hex_rgb_def lstrip_hash_def hexval_def

lemma midnight_colors:
  "hex_rgb (bg midnight) = Some (248, 249, 250)"
  "hex_rgb (primary midnight) = Some (44, 62, 80)"
  "hex_rgb (secondary midnight) = Some (52, 73, 94)"
  "hex_rgb (accent midnight) = Some (26, 188, 156)"
  "hex_rgb (text_light midnight) = Some (255, 255, 255)"
  "hex_rgb (text_dark midnight) = Some (28, 40, 51)"
  "hex_rgb (card_bg midnight) = Some (255, 255, 255)"
  "hex_rgb (card_border midnight) = Some (174, 182, 191)"
  by (simp_all add: theme_eval)


lemma shadowed_rects_append:
  "shadowed_rects (as @ bs) = shadowed_rects as @ shadowed_rects bs"
  by (simp add: shadowed_rects_def List.map_filter_def)

lemma shadowed_rects_concat:
  "shadowed_rects (concat zss) = concat (map shadowed_rects zss)"
  by (induction zss) (simp_all add: shadowed_rects_append, simp add: shadowed_rects_def List.map_filter_def)

lemma card_calls_rects:
  assumes "those (card_calls theme font cols rows idx c) = Some cs"
  shows "shadowed_rects cs = [card_region cols rows idx]"
  using assms
  apply (cases "card_region cols rows idx")
  apply (clarsimp simp: card_calls_def Let_def call_Some simp del: those.simps(2)
           split: if_splits option.splits)
         apply (simp_all add: shadowed_rects_def List.map_filter_simps)
  done

lemma card_w_pos: "cols \<in> {1, 2, 3} \<Longrightarrow> 0 < card_w cols"
  by (auto simp: card_w_def)

lemma card_h_pos: "rows \<in> {1, 2} \<Longrightarrow> 0 < card_h rows"
  by (auto simp: card_h_def)

lemma card_regions_disjoint:
  assumes c: "0 < cols" and w: "0 < card_w cols" and h: "0 < card_h rows" and ij: "i < j"
  shows "\<not> overlap (card_region cols rows i) (card_region cols rows j)"
    and "\<not> overlap (card_region cols rows j) (card_region cols rows i)"
proof -
  let ?gw = "card_w cols + 0.35" and ?gh = "card_h rows + 0.35"
  have d: "i div cols \<le> j div cols" using ij by (simp add: div_le_mono)
  have sep: "(real (i mod cols) + 1 \<le> real (j mod cols) \<and> i div cols = j div cols)
             \<or> real (i div cols) + 1 \<le> real (j div cols)"
  proof (cases "i div cols = j div cols")
    case True
    have "i = cols * (i div cols) + i mod cols" "j = cols * (j div cols) + j mod cols" by simp_all
    with True ij have "i mod cols < j mod cols"
      by (metis nat_add_left_cancel_less)
    then have "real (i mod cols) + 1 \<le> real (j mod cols)" by linarith
    with True show ?thesis by simp
  next
    case False
    with d have "i div cols < j div cols" by simp
    then have "real (i div cols) + 1 \<le> real (j div cols)" by linarith
    then show ?thesis by simp
  qed
  have x: "real (i mod cols) * ?gw + ?gw \<le> real (j mod cols) * ?gw"
    if "real (i mod cols) + 1 \<le> real (j mod cols)"
  proof -
    have "(real (i mod cols) + 1) * ?gw \<le> real (j mod cols) * ?gw"
      using that w by (intro mult_right_mono) auto
    then show ?thesis by (simp only: distrib_right mult_1)
  qed
  have y: "real (i div cols) * ?gh + ?gh \<le> real (j div cols) * ?gh"
    if "real (i div cols) + 1 \<le> real (j div cols)"
  proof -
    have "(real (i div cols) + 1) * ?gh \<le> real (j div cols) * ?gh"
      using that h by (intro mult_right_mono) auto
    then show ?thesis by (simp only: distrib_right mult_1)
  qed
  from sep show "\<not> overlap (card_region cols rows i) (card_region cols rows j)"
    and "\<not> overlap (card_region cols rows j) (card_region cols rows i)"
    using x y w h by (auto simp: overlap_def card_region_def)
qed

lemma concat_singletons:
  assumes "length zss = n" "\<forall>i<n. g (zss ! i) = [f i]"
  shows "concat (map g zss) = map f [0..<n]"
proof -
  have "map g zss = map (\<lambda>i. [f i]) [0..<n]"
    using assms by (intro nth_equalityI) auto
  then show ?thesis by (simp add: concat_map_singleton)
qed

lemma cards_slide_rects:
  assumes n: "sd_cards sd \<noteq> []" and g: "cards_grid (length (sd_cards sd)) = (cols, rows, kept)"
    and b: "build_cards_slide prs sd theme font = Some prs'"
  shows "\<exists>slide. prs' = prs @ [slide] \<and>
           shadowed_rects (sl_shapes slide) = map (card_region cols rows) [0..<kept]"
proof -
  let ?cards = "take kept (sd_cards sd)"
  let ?f = "\<lambda>(idx, c). card_calls theme font cols rows idx c"
  have k: "kept \<le> length (sd_cards sd)"
    using g by (auto simp: cards_grid_def split: if_splits)
  then have lk: "length ?cards = kept" by simp
  from b n g obtain bgd shapes where
    p: "prs' = prs @ [\<lparr>sl_background = bgd, sl_shapes = shapes\<rparr>]" and
    t: "those (title_bar theme (or_default (sd_title sd) []) font
               @ concat (map ?f (enumerate 0 ?cards))
               @ add_slide_footer (Suc (length prs)) theme font) = Some shapes"
    by (auto simp: build_cards_slide_def new_slide_Some Let_def)
  from t obtain as cs bs where
    a: "those (title_bar theme (or_default (sd_title sd) []) font) = Some as" and
    c: "those (concat (map ?f (enumerate 0 ?cards))) = Some cs" and
    f: "those (add_slide_footer (Suc (length prs)) theme font) = Some bs" and
    s: "shapes = as @ cs @ bs"
    by (auto simp: those_append)
  from those_concat_map[OF c] obtain zss where
    l: "length zss = length (enumerate 0 ?cards)" and
    e: "\<forall>i<length (enumerate 0 ?cards). those (?f (enumerate 0 ?cards ! i)) = Some (zss ! i)" and
    z: "cs = concat zss" by blast
  have lz: "length zss = kept" using l lk by simp
  have "\<forall>i<kept. shadowed_rects (zss ! i) = [card_region cols rows i]"
  proof (intro allI impI)
    fix i assume i: "i < kept"
    then have "enumerate 0 ?cards ! i = (i, ?cards ! i)"
      using lk by (simp add: nth_enumerate_eq)
    moreover have "i < length (enumerate 0 ?cards)" using i lk by simp
    ultimately have "those (card_calls theme font cols rows i (?cards ! i)) = Some (zss ! i)"
      using e by (metis case_prod_conv)
    then show "shadowed_rects (zss ! i) = [card_region cols rows i]"
      by (rule card_calls_rects)
  qed
  then have "concat (map shadowed_rects zss) = map (card_region cols rows) [0..<kept]"
    using lz by (intro concat_singletons) auto
  moreover have "shadowed_rects as = []" using title_bar_shapes[OF a] by auto
  moreover have "shadowed_rects bs = []" using footer_shapes[OF f] by auto
  ultimately have "shadowed_rects shapes = map (card_region cols rows) [0..<kept]"
    using s z by (simp add: shadowed_rects_append shadowed_rects_concat)
  then show ?thesis using p by simp
qed

text \<open>
  Claim C1. For a list of \<open>N \<ge> 1\<close> cards the builder picks the grid by the thresholds of
  the claim, keeps the first \<open>min N 6\<close> cards (with more than six cards the slide is the
  one built from the first six), and gives card \<open>idx\<close> the region
  \<open>card_region\<close>: every region has positive width and height, the width is
  \<open>(12.3 - (cols - 1) * 0.35) / cols\<close>, and no two regions overlap. When the builder
  returns, the card backgrounds on the new slide are exactly these regions, in
  order, so there are at most six.
\<close>

theorem cards_grid_layout:
  assumes "1 \<le> length (sd_cards sd)"
    and "cards_grid (length (sd_cards sd)) = (cols, rows, kept)"
  shows "(length (sd_cards sd) \<le> 3 \<longrightarrow> cols = length (sd_cards sd) \<and> rows = 1) \<and>
         (length (sd_cards sd) = 4 \<longrightarrow> cols = 2 \<and> rows = 2) \<and>
         (5 \<le> length (sd_cards sd) \<longrightarrow> cols = 3 \<and> rows = 2) \<and>
         kept = min (length (sd_cards sd)) 6 \<and>
         (6 < length (sd_cards sd) \<longrightarrow>
            build_cards_slide prs sd theme font
            = build_cards_slide prs (sd\<lparr>sd_cards := take 6 (sd_cards sd)\<rparr>) theme font) \<and>
         (\<forall>idx<kept. case card_region cols rows idx of (x, y, w, h) \<Rightarrow>
             0 < w \<and> 0 < h \<and> w = (12.3 - (of_nat cols - 1) * 0.35) / of_nat cols) \<and>
         (\<forall>i<kept. \<forall>j<kept. i \<noteq> j \<longrightarrow>
             \<not> overlap (card_region cols rows i) (card_region cols rows j)) \<and>
         (\<forall>prs'. build_cards_slide prs sd theme font = Some prs' \<longrightarrow>
             (\<exists>slide. prs' = prs @ [slide] \<and>
                length (shadowed_rects (sl_shapes slide)) \<le> 6 \<and>
                shadowed_rects (sl_shapes slide) = map (card_region cols rows) [0..<kept]))"
proof -
  let ?n = "length (sd_cards sd)"
  have grid: "(?n \<le> 3 \<longrightarrow> cols = ?n \<and> rows = 1) \<and> (?n = 4 \<longrightarrow> cols = 2 \<and> rows = 2) \<and>
              (5 \<le> ?n \<longrightarrow> cols = 3 \<and> rows = 2) \<and> kept = min ?n 6"
    using assms by (auto simp: cards_grid_def split: if_splits)
  have cr: "cols \<in> {1, 2, 3}" "rows \<in> {1, 2}"
    using assms by (auto simp: cards_grid_def split: if_splits)
  note w = card_w_pos[OF cr(1)] and h = card_h_pos[OF cr(2)]
  have c0: "0 < cols" using cr(1) by auto
  have pos: "\<forall>idx<kept. case card_region cols rows idx of (x, y, w, h) \<Rightarrow>
             0 < w \<and> 0 < h \<and> w = (12.3 - (of_nat cols - 1) * 0.35) / of_nat cols"
    using w h by (simp add: card_region_def card_w_def)
  have dis: "\<not> overlap (card_region cols rows i) (card_region cols rows j)" if "i \<noteq> j" for i j
  proof (cases "i < j")
    case True
    then show ?thesis by (rule card_regions_disjoint(1)[OF c0 w h])
  next
    case False
    with that have "j < i" by simp
    then show ?thesis by (rule card_regions_disjoint(2)[OF c0 w h])
  qed
  have ne: "sd_cards sd \<noteq> []" using assms(1) by auto
  have k6: "kept \<le> 6" using grid by simp
  have link: "\<forall>prs'. build_cards_slide prs sd theme font = Some prs' \<longrightarrow>
             (\<exists>slide. prs' = prs @ [slide] \<and>
                length (shadowed_rects (sl_shapes slide)) \<le> 6 \<and>
                shadowed_rects (sl_shapes slide) = map (card_region cols rows) [0..<kept])"
  proof (intro allI impI)
    fix prs' assume "build_cards_slide prs sd theme font = Some prs'"
    from cards_slide_rects[OF ne assms(2) this] obtain slide where
      s: "prs' = prs @ [slide]"
        "shadowed_rects (sl_shapes slide) = map (card_region cols rows) [0..<kept]" by blast
    then have "length (shadowed_rects (sl_shapes slide)) \<le> 6" using k6 by simp
    with s show "\<exists>slide. prs' = prs @ [slide] \<and>
                length (shadowed_rects (sl_shapes slide)) \<le> 6 \<and>
                shadowed_rects (sl_shapes slide) = map (card_region cols rows) [0..<kept]"
      by blast
  qed
  have six: "6 < ?n \<longrightarrow>
            build_cards_slide prs sd theme font
            = build_cards_slide prs (sd\<lparr>sd_cards := take 6 (sd_cards sd)\<rparr>) theme font"
    by (auto simp: build_cards_slide_def Let_def cards_grid_def)
  show ?thesis using grid six pos dis link by blast
qed

lemma seven_cards_built: "build_cards_slide [] seven_cards midnight ''Arial'' \<noteq> None"
  by (simp add: build_cards_slide_def seven_cards_def empty_slide_def cards_grid_def
      new_slide_def apply_bg_solid_def title_bar_def add_slide_footer_def card_calls_def
      card_region_def add_rounded_rect_def add_decorative_bar_def add_text_box_def
      add_text_to_frame_def plain_text_def empty_config_def border_of_def midnight_colors
      or_default_def if_truthy_def Let_def enumerate_eq_zip upt_rec_numeral)


theorem cards_grid_layout_witness:
  "1 \<le> length (sd_cards seven_cards) \<and>
   cards_grid (length (sd_cards seven_cards)) = (3, 2, 6) \<and>
   map_option (\<lambda>p. shadowed_rects (sl_shapes (last p)))
     (build_cards_slide [] seven_cards midnight ''Arial'')
   = Some [(1 / 2, 7 / 5, 58 / 15, 89 / 40), (283 / 60, 7 / 5, 58 / 15, 89 / 40),
           (134 / 15, 7 / 5, 58 / 15, 89 / 40), (1 / 2, 159 / 40, 58 / 15, 89 / 40),
           (283 / 60, 159 / 40, 58 / 15, 89 / 40), (134 / 15, 159 / 40, 58 / 15, 89 / 40)]"
proof -
  have l: "1 \<le> length (sd_cards seven_cards)" by (simp add: seven_cards_def)
  have g: "cards_grid (length (sd_cards seven_cards)) = (3, 2, 6)"
    by (simp add: seven_cards_def cards_grid_def)
  obtain prs' where b: "build_cards_slide [] seven_cards midnight ''Arial'' = Some prs'"
    using seven_cards_built by auto
  from cards_grid_layout[OF l g, of "[]" midnight "''Arial''"] b obtain slide where
    s: "prs' = [slide]" "shadowed_rects (sl_shapes slide) = map (card_region 3 2) [0..<6]"
    by auto
  have r: "map (card_region 3 2) [0..<6]
           = [(1 / 2, 7 / 5, 58 / 15, 89 / 40), (283 / 60, 7 / 5, 58 / 15, 89 / 40),
              (134 / 15, 7 / 5, 58 / 15, 89 / 40), (1 / 2, 159 / 40, 58 / 15, 89 / 40),
              (283 / 60, 159 / 40, 58 / 15, 89 / 40), (134 / 15, 159 / 40, 58 / 15, 89 / 40)]"
    by code_simp
  show ?thesis using l g b s r by simp
qed





section \<open>Verification: dispatcher and entry point\<close>

lemma ends_with_footer_append:
  assumes "ends_with_footer n f zs"
  shows "ends_with_footer n f (as @ zs)"
proof (cases "rev zs")
  case Nil
  then show ?thesis using assms by (simp add: ends_with_footer_def)
next
  case outer: (Cons t r1)
  show ?thesis
  proof (cases r1)
    case Nil
    then show ?thesis using assms outer
      by (simp add: ends_with_footer_def split: shape.splits)
  next
    case (Cons b rest)
    then have "rev (as @ zs) = t # b # (rest @ rev as)" using outer by simp
    then show ?thesis using assms outer Cons
      by (simp add: ends_with_footer_def split: shape.splits)
  qed
qed

lemma ends_with_footer_Cons:
  "ends_with_footer n f zs \<Longrightarrow> ends_with_footer n f (a # zs)"
  using ends_with_footer_append[of n f zs "[a]"] by simp

lemma ends_with_footer_footer:
  assumes "those (add_slide_footer n theme f) = Some ft"
  shows "ends_with_footer n f ft"
  using footer_shapes[OF assms] by (auto simp: ends_with_footer_def)

lemmas footer_simps = ends_with_footer_append ends_with_footer_Cons

lemma content_slide_footer:
  assumes "build_content_slide env prs sd theme f = Some prs'"
  shows "\<exists>slide. prs' = prs @ [slide] \<and> ends_with_footer (Suc (length prs)) f (sl_shapes slide)"
  using assms
  by (auto simp: build_content_slide_def new_slide_Some those_append
      split: option.splits simp: footer_simps dest!: ends_with_footer_footer)

lemma two_column_slide_footer:
  assumes "build_two_column_slide prs sd theme f = Some prs'"
  shows "\<exists>slide. prs' = prs @ [slide] \<and> ends_with_footer (Suc (length prs)) f (sl_shapes slide)"
  using assms
  by (auto simp: build_two_column_slide_def new_slide_Some those_append those_Cons
      simp del: those.simps(2) simp: footer_simps dest!: ends_with_footer_footer)

lemma three_column_slide_footer:
  assumes "build_three_column_slide prs sd theme f = Some prs'"
  shows "\<exists>slide. prs' = prs @ [slide] \<and> ends_with_footer (Suc (length prs)) f (sl_shapes slide)"
  using assms
  by (auto simp: build_three_column_slide_def new_slide_Some those_append
      simp: footer_simps dest!: ends_with_footer_footer)

lemma cards_slide_footer:
  assumes "build_cards_slide prs sd theme f = Some prs'"
  shows "\<exists>slide. prs' = prs @ [slide] \<and> ends_with_footer (Suc (length prs)) f (sl_shapes slide)"
  using assms
  by (auto simp: build_cards_slide_def new_slide_Some those_append Let_def
      split: if_splits prod.splits simp: footer_simps dest!: ends_with_footer_footer)

lemma chart_slide_footer:
  assumes "build_chart_slide prs sd theme f = Some prs'"
  shows "\<exists>slide. prs' = prs @ [slide] \<and> ends_with_footer (Suc (length prs)) f (sl_shapes slide)"
  using assms
  by (auto simp: build_chart_slide_def new_slide_Some those_append those_Cons Let_def
      simp del: those.simps(2) split: option.splits simp: footer_simps dest!: ends_with_footer_footer)

lemma stats_slide_footer:
  assumes "build_stats_slide prs sd theme f = Some prs'"
  shows "\<exists>slide. prs' = prs @ [slide] \<and> ends_with_footer (Suc (length prs)) f (sl_shapes slide)"
  using assms
  by (auto simp: build_stats_slide_def new_slide_Some those_append Let_def
      split: if_splits simp: footer_simps dest!: ends_with_footer_footer)

lemma timeline_slide_footer:
  assumes "build_timeline_slide prs sd theme f = Some prs'"
  shows "\<exists>slide. prs' = prs @ [slide] \<and> ends_with_footer (Suc (length prs)) f (sl_shapes slide)"
  using assms
  by (auto simp: build_timeline_slide_def new_slide_Some those_append those_Cons Let_def
      simp del: those.simps(2) split: if_splits simp: footer_simps dest!: ends_with_footer_footer)

lemma table_slide_footer:
  assumes "build_table_slide prs sd theme f = Some prs'"
  shows "\<exists>slide. prs' = prs @ [slide] \<and> ends_with_footer (Suc (length prs)) f (sl_shapes slide)"
  using assms
  by (auto simp: build_table_slide_def new_slide_Some those_append Let_def
      simp: footer_simps dest!: ends_with_footer_footer)

lemma image_slide_footer:
  assumes "build_image_slide env prs sd theme f ws = Some prs'"
  shows "\<exists>slide. prs' = prs @ [slide] \<and> ends_with_footer (Suc (length prs)) f (sl_shapes slide)"
  using assms
  by (auto simp: build_image_slide_def new_slide_Some those_append Let_def
      simp: footer_simps dest!: ends_with_footer_footer)

lemma comparison_slide_footer:
  assumes "build_comparison_slide prs sd theme f = Some prs'"
  shows "\<exists>slide. prs' = prs @ [slide] \<and> ends_with_footer (Suc (length prs)) f (sl_shapes slide)"
  using assms
  by (auto simp: build_comparison_slide_def new_slide_Some those_append those_Cons Let_def
      simp del: those.simps(2) simp: footer_simps dest!: ends_with_footer_footer)

lemma plain_slide_added:
  "build_title_slide prs sd theme f = Some prs' \<Longrightarrow> \<exists>slide. prs' = prs @ [slide]"
  "build_section_slide prs sd theme f = Some prs' \<Longrightarrow> \<exists>slide. prs' = prs @ [slide]"
  "build_quote_slide prs sd theme f = Some prs' \<Longrightarrow> \<exists>slide. prs' = prs @ [slide]"
  "build_ending_slide prs sd theme f = Some prs' \<Longrightarrow> \<exists>slide. prs' = prs @ [slide]"
  by (auto simp: build_title_slide_def build_section_slide_def build_quote_slide_def
      build_ending_slide_def new_slide_Some)

lemma dispatch_slide_adds:
  assumes "dispatch_slide env ws prs sd theme f = Some prs'"
  shows "\<exists>slide. prs' = prs @ [slide] \<and>
           (normalized_type sd \<notin> set no_footer_types \<longrightarrow>
              ends_with_footer (Suc (length prs)) f (sl_shapes slide))"
proof (cases "map_of (SLIDE_BUILDERS env) (normalized_type sd)")
  case None
  then have "build_content_slide env prs sd theme f = Some prs'"
    using assms by (simp add: dispatch_slide_def)
  from content_slide_footer[OF this] show ?thesis by blast
next
  case (Some b)
  then have m: "(normalized_type sd, b) \<in> set (SLIDE_BUILDERS env)" by (rule map_of_SomeD)
  show ?thesis
    using m assms Some
    by (auto simp: SLIDE_BUILDERS_def dispatch_slide_def no_footer_types_def
        dest: content_slide_footer two_column_slide_footer three_column_slide_footer
          cards_slide_footer chart_slide_footer stats_slide_footer timeline_slide_footer
          table_slide_footer image_slide_footer comparison_slide_footer plain_slide_added)
qed

lemma build_slides_steps:
  assumes "build_slides env ws theme f prs slides = Some prs'"
  shows "length prs' = length prs + length slides \<and> take (length prs) prs' = prs \<and>
         (\<forall>i<length slides.
            dispatch_slide env ws (take (length prs + i) prs') (slides ! i) theme f
              = Some (take (Suc (length prs + i)) prs') \<and>
            (normalized_type (slides ! i) \<notin> set no_footer_types \<longrightarrow>
               ends_with_footer (Suc (length prs + i)) f (sl_shapes (prs' ! (length prs + i)))))"
  using assms
proof (induction slides arbitrary: prs)
  case Nil
  then show ?case by simp
next
  case (Cons sd rest)
  from Cons.prems obtain mid where
    d: "dispatch_slide env ws prs sd theme f = Some mid" and
    r: "build_slides env ws theme f mid rest = Some prs'"
    by (auto split: option.splits)
  from dispatch_slide_adds[OF d] obtain slide where
    mid: "mid = prs @ [slide]" and
    ft: "normalized_type sd \<notin> set no_footer_types \<longrightarrow>
           ends_with_footer (Suc (length prs)) f (sl_shapes slide)" by blast
  from Cons.IH[OF r] have
    len: "length prs' = length mid + length rest" and
    tk: "take (length mid) prs' = mid" and
    st: "\<forall>i<length rest.
            dispatch_slide env ws (take (length mid + i) prs') (rest ! i) theme f
              = Some (take (Suc (length mid + i)) prs') \<and>
            (normalized_type (rest ! i) \<notin> set no_footer_types \<longrightarrow>
               ends_with_footer (Suc (length mid + i)) f (sl_shapes (prs' ! (length mid + i))))"
    by blast+
  have lm: "length mid = Suc (length prs)" using mid by simp
  have tp: "take (length prs) prs' = prs"
  proof -
    have "take (length prs) (take (length mid) prs') = take (length prs) mid"
      using tk by simp
    then show ?thesis using mid lm by (simp add: min_def)
  qed
  have nth: "prs' ! length prs = slide"
    using tk mid lm by (metis nth_take lessI nth_append_length)
  have step: "dispatch_slide env ws (take (length prs + i) prs') ((sd # rest) ! i) theme f
              = Some (take (Suc (length prs + i)) prs') \<and>
            (normalized_type ((sd # rest) ! i) \<notin> set no_footer_types \<longrightarrow>
               ends_with_footer (Suc (length prs + i)) f (sl_shapes (prs' ! (length prs + i))))"
    if i: "i < length (sd # rest)" for i
  proof (cases i)
    case 0
    then show ?thesis using d tp tk lm ft nth by simp
  next
    case (Suc k)
    then have "k < length rest" using i by simp
    with st show ?thesis using Suc lm by simp
  qed
  show ?case using len lm tp step by simp
qed

text \<open>
  Claim C10. When \<open>generate_pptx_presentation\<close> returns its success record, the loop
  has added exactly one slide per entry of \<open>slides_content\<close>, in order: slide \<open>i\<close> is
  the one the dispatcher builds from entry \<open>i\<close> on the presentation of the first
  \<open>i\<close> slides, and \<open>slides_count\<close> is the length of \<open>slides_content\<close>. Every slide
  whose builder adds a footer (all but the title, section, quote and ending builders)
  ends with the footer whose page number is the slide's position, counted from 1.
\<close>

theorem one_slide_per_entry:
  assumes "generate_pptx_presentation env file_path slides_content presentation_settings
           = Returned (Success r)"
  shows "r_slides_count r = length slides_content \<and>
         (\<exists>workspace theme default_font prs.
            env_workspace env = Some workspace \<and>
            build_slides env workspace theme default_font [] slides_content = Some prs \<and>
            length prs = length slides_content \<and>
            (\<forall>i<length slides_content.
               dispatch_slide env workspace (take i prs) (slides_content ! i) theme default_font
                 = Some (take (Suc i) prs) \<and>
               (normalized_type (slides_content ! i) \<notin> set no_footer_types \<longrightarrow>
                  ends_with_footer (Suc i) default_font (sl_shapes (prs ! i)))))"
proof -
  from assms obtain workspace where w: "env_workspace env = Some workspace"
    by (auto simp: generate_pptx_presentation_def split: option.splits)
  define theme_name where
    "theme_name = or_default (Option.bind presentation_settings ps_theme) ''midnight''"
  define theme where
    "theme = (case Option.bind presentation_settings ps_custom_colors of
                Some cu \<Rightarrow> merge_theme (get_theme theme_name) cu
              | None \<Rightarrow> get_theme theme_name)"
  define default_font where
    "default_font = or_default (Option.bind presentation_settings ps_default_font)
                      default_font_name"
  from assms w obtain prs where
    b: "build_slides env workspace theme default_font [] slides_content = Some prs" and
    c: "r_slides_count r = length prs"
    by (auto simp: generate_pptx_presentation_def Let_def theme_name_def theme_def
        default_font_def split: option.splits if_splits)
  from build_slides_steps[OF b] have
    "length prs = length slides_content"
    "\<forall>i<length slides_content.
       dispatch_slide env workspace (take i prs) (slides_content ! i) theme default_font
         = Some (take (Suc i) prs) \<and>
       (normalized_type (slides_content ! i) \<notin> set no_footer_types \<longrightarrow>
          ends_with_footer (Suc i) default_font (sl_shapes (prs ! i)))"
    by simp_all
  with w b c show ?thesis by auto
qed

text \<open>
  Claim C6, as the code has it. The dispatcher looks up the slide type after
  lower-casing it and stripping the blanks around it. When that normalised type is
  no key of the registry, the dispatch is the call of the content builder on the same
  slide data: it raises no error of its own, and its result is the result of
  dispatching the same data with the slide type \<open>"content"\<close>.
\<close>

theorem unknown_type_falls_back:
  assumes "normalized_type slide_data \<notin> set (map fst (SLIDE_BUILDERS env))"
  shows "dispatch_slide env workspace prs slide_data theme default_font
           = build_content_slide env prs slide_data theme default_font \<and>
         dispatch_slide env workspace prs slide_data theme default_font
           = dispatch_slide env workspace prs (slide_data\<lparr>sd_slide_type := Some ''content''\<rparr>)
               theme default_font"
proof -
  have none: "map_of (SLIDE_BUILDERS env) (normalized_type slide_data) = None"
    using assms by (simp add: map_of_eq_None_iff)
  have fallback: "dispatch_slide env workspace prs slide_data theme default_font
           = build_content_slide env prs slide_data theme default_font"
    using none by (simp add: dispatch_slide_def)
  have norm: "normalized_type (slide_data\<lparr>sd_slide_type := Some ''content''\<rparr>) = ''content''"
    by (simp add: normalized_type_def or_default_def py_lower_def py_strip_def py_isspace_def)
  have "dispatch_slide env workspace prs (slide_data\<lparr>sd_slide_type := Some ''content''\<rparr>)
          theme default_font
        = build_content_slide env prs (slide_data\<lparr>sd_slide_type := Some ''content''\<rparr>)
            theme default_font"
    by (simp add: dispatch_slide_def norm SLIDE_BUILDERS_def)
  also have "\<dots> = build_content_slide env prs slide_data theme default_font"
    by (simp add: build_content_slide_def)
  finally show ?thesis using fallback by simp
qed

lemmas builder_eval = new_slide_def apply_bg_solid_def title_bar_def add_slide_footer_def
  add_circle_def add_decorative_bar_def add_text_box_def add_rounded_rect_def
  add_text_to_frame_def plain_text_def empty_config_def border_of_def midnight_colors
  or_default_def if_truthy_def Let_def enumerate_eq_zip upt_rec_numeral

lemmas type_eval = normalized_type_def py_lower_def py_strip_def py_isspace_def
  SLIDE_BUILDERS_def dispatch_slide_def char_of_def bit_Suc_0_iff

theorem unknown_type_falls_back_witness:
  "normalized_type (empty_slide\<lparr>sd_slide_type := Some ''Hologram '', sd_title := Some ''T''\<rparr>)
     \<notin> set (map fst (SLIDE_BUILDERS plain_env)) \<and>
   dispatch_slide plain_env ''/w'' []
     (empty_slide\<lparr>sd_slide_type := Some ''Hologram '', sd_title := Some ''T''\<rparr>)
     midnight ''Arial''
   = Some [\<lparr>sl_background = Solid (248, 249, 250),
            sl_shapes = furniture midnight ''T'' ''Arial'' 1 (44, 62, 80) (26, 188, 156)\<rparr>]"
proof -
  let ?sd = "empty_slide\<lparr>sd_slide_type := Some ''Hologram '', sd_title := Some ''T''\<rparr>"
  have n: "normalized_type ?sd = ''hologram''"
    by (simp add: type_eval empty_slide_def or_default_def)
  have h: "normalized_type ?sd \<notin> set (map fst (SLIDE_BUILDERS plain_env))"
    unfolding n by (simp add: SLIDE_BUILDERS_def)
  have c: "build_content_slide plain_env [] ?sd midnight ''Arial''
           = Some [\<lparr>sl_background = Solid (248, 249, 250),
                    sl_shapes = furniture midnight ''T'' ''Arial'' 1 (44, 62, 80) (26, 188, 156)\<rparr>]"
    by (simp add: build_content_slide_def empty_slide_def furniture_def builder_eval)
  show ?thesis
    using unknown_type_falls_back[OF h, of "''/w''" "[]" midnight "''Arial''"] h c by simp
qed

text \<open>
  Claim C6 as the specification states it fails for a slide type that is no key of the
  registry as written but becomes one when normalised: \<open>"CARDS"\<close> is no key, and a
  slide of that type is built by the cards builder, with its 23 shapes for seven
  cards, while the same data with the type \<open>"content"\<close> give the 5 shapes of a content
  slide.
\<close>

theorem unknown_type_counterexample:
  "''CARDS'' \<notin> set (map fst (SLIDE_BUILDERS plain_env)) \<and>
   map_option (\<lambda>p. length (sl_shapes (last p)))
     (dispatch_slide plain_env ''/w'' [] (seven_cards\<lparr>sd_slide_type := Some ''CARDS''\<rparr>)
        midnight ''Arial'') = Some 23 \<and>
   map_option (\<lambda>p. length (sl_shapes (last p)))
     (dispatch_slide plain_env ''/w'' [] (seven_cards\<lparr>sd_slide_type := Some ''content''\<rparr>)
        midnight ''Arial'') = Some 5"
  by (simp add: type_eval seven_cards_def empty_slide_def build_cards_slide_def
      build_content_slide_def cards_grid_def card_calls_def card_region_def builder_eval)

lemma title_dispatched:
  "dispatch_slide plain_env ''/w'' prs (empty_slide\<lparr>sd_slide_type := Some ''title''\<rparr>)
     midnight f \<noteq> None"
  by (simp add: type_eval empty_slide_def build_title_slide_def join_sep_def
      apply_bg_gradient_def builder_eval theme_eval color_eval)

lemma timeline_dispatched:
  "dispatch_slide plain_env ''/w'' prs two_steps midnight f \<noteq> None"
  by (simp add: type_eval two_steps_def empty_slide_def build_timeline_slide_def
      step_calls_def builder_eval)

lemma cards_dispatched:
  "dispatch_slide plain_env ''/w'' prs seven_cards midnight f \<noteq> None"
  by (simp add: type_eval seven_cards_def empty_slide_def build_content_slide_def
      builder_eval)

lemma plain_env_simps:
  "env_workspace plain_env = Some ''/w''"
  "env_makedirs_ok plain_env p"
  "env_save_ok plain_env p \<longleftrightarrow> p \<noteq> [] \<and> last p \<noteq> CHR ''/''"
  by (simp_all add: plain_env_def)

lemma get_theme_midnight: "get_theme ''midnight'' = midnight"
  by (simp add: get_theme_def THEMES_def)

theorem one_slide_per_entry_witness:
  "(case generate_pptx_presentation plain_env ''deck.pptx''
           [empty_slide\<lparr>sd_slide_type := Some ''title''\<rparr>, two_steps, seven_cards] None of
      Returned (Success r) \<Rightarrow>
        r_slides_count r = 3 \<and> r_file_path r = ''/w/deck.pptx'' \<and> r_theme r = ''midnight''
    | _ \<Rightarrow> False)"
proof -
  let ?deck = "[empty_slide\<lparr>sd_slide_type := Some ''title''\<rparr>, two_steps, seven_cards]"
  let ?f = default_font_name
  obtain p1 where p1: "dispatch_slide plain_env ''/w'' []
      (empty_slide\<lparr>sd_slide_type := Some ''title''\<rparr>) midnight ?f = Some p1"
    using title_dispatched by blast
  obtain p2 where p2: "dispatch_slide plain_env ''/w'' p1 two_steps midnight ?f = Some p2"
    using timeline_dispatched by blast
  obtain p3 where p3: "dispatch_slide plain_env ''/w'' p2 seven_cards midnight ?f = Some p3"
    using cards_dispatched by blast
  have b: "build_slides plain_env ''/w'' midnight ?f [] ?deck = Some p3"
    using p1 p2 p3 by simp
  have g: "generate_pptx_presentation plain_env ''deck.pptx'' ?deck None
           = Returned (Success \<lparr>r_file_path = ''/w/deck.pptx'', r_slides_count = length p3,
               r_theme = ''midnight'',
               r_message = ''Presentation saved with '' @ dec_digits (length p3)
                           @ '' slides using '' @ [CHR 0x27] @ ''midnight''
                           @ [CHR 0x27] @ '' theme.''\<rparr>)"
    using b
    by (simp add: generate_pptx_presentation_def plain_env_simps get_theme_midnight
        py_join_def py_isabs_def py_dirname_def or_default_def)
  from one_slide_per_entry[OF g] have "length p3 = 3" by simp
  then show ?thesis using g by simp
qed

text \<open>
  Claim C5 fails on the presentation entry point. \<open>generate_pptx_presentation\<close> has no
  \<open>try\<close> around its loop and its \<open>save\<close>, unlike \<open>generate_word_document\<close> and
  \<open>generate_excel_document\<close>: asked to save to the empty file name, the path is the
  workspace directory itself, \<open>save\<close> raises, and the call raises instead of returning
  an error record.
\<close>

theorem pptx_save_error_propagates:
  "generate_pptx_presentation plain_env [] [] None = Raised"
  by (simp add: generate_pptx_presentation_def plain_env_def py_join_def py_isabs_def
      py_dirname_def)

end
